theory Spec2Isabelle
  imports Complex_Main
begin

section \<open>JavaScript values used by the plugin\<close>

text \<open>
  The plugin (\<^verbatim>\<open>scr/code.ts\<close>) reads a tree of Figma nodes and renders it as text.
  A finite JavaScript number is represented by its exact rational value. Strings are
  lists of characters (code units below 256); the white space and line terminators
  recognised are the ASCII ones plus the no-break space.

  Two things the language does with numbers are not computed here and are supplied
  by a record of type \<open>jsnum\<close>: the rounding of an arithmetic result to the nearest
  double (\<open>fl\<close>), and the digits \<^verbatim>\<open>Number::toString\<close> prints for a number that is not
  an integer below \<open>2^53\<close> (\<open>toStr\<close>). Every theorem below holds for any such record.
\<close>

record jsnum =
  toStr :: "rat \<Rightarrow> string"
  fl :: "rat \<Rightarrow> rat"

text \<open>
  The record used at concrete inputs. Nothing is rounded, the inputs being such that
  the arithmetic is exact on doubles, and \<open>toStr\<close> is a placeholder that they never
  reach.
\<close>

definition exact :: jsnum where
  "exact = \<lparr>toStr = (\<lambda>x. ''?''), fl = (\<lambda>x. x)\<rparr>"

text \<open>A property that may be missing, or hold the \<^verbatim>\<open>figma.mixed\<close> symbol.\<close>

datatype 'a field = Absent | Mixed | Val 'a

definition nl :: string where
  "nl = [CHR 0x0A]"

definition digitChar :: "nat \<Rightarrow> char" where
  "digitChar d = ''0123456789'' ! d"

fun digitsNat :: "nat \<Rightarrow> string" where
  "digitsNat n =
     (if n < 10 then [digitChar n] else digitsNat (n div 10) @ [digitChar (n mod 10)])"

declare digitsNat.simps [simp del]

text \<open>
  \<^verbatim>\<open>Number::toString\<close>: an integer of magnitude below \<open>2^53\<close> is printed in decimal
  digits (it is the only number of so few digits that is read back as itself).
\<close>

definition numberToString :: "jsnum \<Rightarrow> rat \<Rightarrow> string" where
  "numberToString js x =
     (if of_int \<lfloor>x\<rfloor> = x \<and> \<bar>x\<bar> < 2 ^ 53
      then (if x < 0 then ''-'' else '''') @ digitsNat (nat \<lfloor>\<bar>x\<bar>\<rfloor>)
      else toStr js x)"

text \<open>\<^verbatim>\<open>Math.round\<close>: the nearest integer, a tie going up.\<close>

definition Math_round :: "rat \<Rightarrow> rat" where
  "Math_round x = of_int \<lfloor>x + 1 / 2\<rfloor>"

text \<open>
  \<^verbatim>\<open>num.toFixed(2)\<close>, after ECMA-262: the sign, then for a magnitude below \<open>10^21\<close>
  the integer \<open>n\<close> nearest to \<open>100 * x\<close> (the larger of two), padded to three digits,
  with a point before its last two digits.
\<close>

definition toFixed2 :: "jsnum \<Rightarrow> rat \<Rightarrow> string" where
  "toFixed2 js num =
     (let s = (if num < 0 then ''-'' else ''''); x = \<bar>num\<bar> in
      if x \<ge> 10 ^ 21 then s @ numberToString js x
      else
        let n = nat \<lfloor>x * 100 + 1 / 2\<rfloor>;
            m0 = digitsNat n;
            m = (if length m0 \<le> 2 then replicate (3 - length m0) (CHR ''0'') @ m0 else m0);
            k = length m
        in s @ take (k - 2) m @ ''.'' @ drop (k - 2) m)"

definition endsWith :: "string \<Rightarrow> string \<Rightarrow> bool" where
  "endsWith s suf = (length suf \<le> length s \<and> drop (length s - length suf) s = suf)"

text \<open>\<^verbatim>\<open>a || d\<close> on a number that may be \<^verbatim>\<open>undefined\<close>: 0 is falsy as well.\<close>

definition orElse :: "rat option \<Rightarrow> rat \<Rightarrow> rat" where
  "orElse a d = (case a of None \<Rightarrow> d | Some v \<Rightarrow> if v = 0 then d else v)"

text \<open>\<^verbatim>\<open>Array.prototype.join\<close>\<close>

fun join :: "string \<Rightarrow> string list \<Rightarrow> string" where
  "join sep [] = []"
| "join sep [s] = s"
| "join sep (s # t # ts) = s @ sep @ join sep (t # ts)"

definition lowerChar :: "char \<Rightarrow> char" where
  "lowerChar c =
     (case map_of (zip ''ABCDEFGHIJKLMNOPQRSTUVWXYZ'' ''abcdefghijklmnopqrstuvwxyz'') c of
        None \<Rightarrow> c | Some d \<Rightarrow> d)"

definition toLowerCase :: "string \<Rightarrow> string" where
  "toLowerCase s = map lowerChar s"

text \<open>The regular expression classes \<^verbatim>\<open>\s\<close> and line terminator.\<close>

definition isSpace :: "char \<Rightarrow> bool" where
  "isSpace c = (c \<in> set [CHR 0x09, CHR 0x0A, CHR 0x0B, CHR 0x0C, CHR 0x0D, CHR 0x20, CHR 0xA0])"

definition isLineTerminator :: "char \<Rightarrow> bool" where
  "isLineTerminator c = (c = CHR 0x0A \<or> c = CHR 0x0D)"

text \<open>
  The lookahead \<^verbatim>\<open>\s*$\<close> under the flag \<^verbatim>\<open>m\<close>: some run of white space from here
  ends at the end of the input or before a line terminator.
\<close>

fun blankAhead :: "string \<Rightarrow> bool" where
  "blankAhead [] = True"
| "blankAhead (c # cs) = (isLineTerminator c \<or> (isSpace c \<and> blankAhead cs))"

text \<open>
  \<^verbatim>\<open>str.replace(/^(?!\s*$)/gm, pad)\<close>: every position is tried once; the empty match
  \<^verbatim>\<open>^\<close> succeeds at the start of the input and after a line terminator, unless the
  lookahead finds the rest of the line blank. \<open>atStart\<close> says whether the position
  before the first character is such a start.
\<close>

fun replaceLineStarts :: "string \<Rightarrow> bool \<Rightarrow> string \<Rightarrow> string" where
  "replaceLineStarts pad atStart [] = (if atStart \<and> \<not> blankAhead [] then pad else [])"
| "replaceLineStarts pad atStart (c # cs) =
     (if atStart \<and> \<not> blankAhead (c # cs) then pad else [])
       @ c # replaceLineStarts pad (isLineTerminator c) cs"

text \<open>\<^verbatim>\<open>str.replace(/\n/g, '\\n')\<close>\<close>

definition escapeNewlines :: "string \<Rightarrow> string" where
  "escapeNewlines s = concat (map (\<lambda>c. if c = CHR 0x0A then [CHR 0x5C, CHR ''n''] else [c]) s)"

section \<open>Utility functions\<close>

text \<open>\<^verbatim>\<open>num.toFixed(2).replace(/\.00$/, "")\<close>\<close>

definition sliceNum :: "jsnum \<Rightarrow> rat \<Rightarrow> string" where
  "sliceNum js num =
     (let s = toFixed2 js num in
      if endsWith s ''.00'' then take (length s - 3) s else s)"

definition nearestOpacity :: "jsnum \<Rightarrow> rat \<Rightarrow> rat" where
  "nearestOpacity js nodeOpacity = Math_round (fl js (nodeOpacity * 100))"

record RGB =
  rgb_r :: rat
  rgb_g :: rat
  rgb_b :: rat

text \<open>The second parameter has the default 1, taken when the argument is \<^verbatim>\<open>undefined\<close>.\<close>

definition rgbaFromRGB :: "jsnum \<Rightarrow> RGB \<Rightarrow> rat option \<Rightarrow> string" where
  "rgbaFromRGB js color opacity0 =
     (let opacity = (case opacity0 of None \<Rightarrow> 1 | Some v \<Rightarrow> v) in
      ''rgba('' @ numberToString js (Math_round (fl js (rgb_r color * 255))) @ '', ''
        @ numberToString js (Math_round (fl js (rgb_g color * 255))) @ '', ''
        @ numberToString js (Math_round (fl js (rgb_b color * 255))) @ '', ''
        @ numberToString js opacity @ '')'')"

text \<open>The indent level has the default 2, which every caller in the plugin takes.\<close>

definition indentString :: "string \<Rightarrow> nat \<Rightarrow> string" where
  "indentString str indentLevel = replaceLineStarts (replicate indentLevel (CHR '' '')) True str"

section \<open>Nodes\<close>

record Paint =
  paint_type :: string
  paint_color :: RGB
  paint_opacity :: "rat option"

record Effect =
  effect_type :: string
  effect_visible :: bool
  effect_offset_x :: rat
  effect_offset_y :: rat
  effect_radius :: rat
  effect_color :: RGB
  effect_opacity :: "rat option"

record FontName =
  family :: string
  style :: string

text \<open>
  A line height or letter spacing: an object with a unit (and a value, unless the unit
  is \<^verbatim>\<open>AUTO\<close>), or a bare number.
\<close>

datatype Measure = WithUnit rat string | Bare rat

text \<open>
  The properties of a scene node that the plugin reads; property \<^verbatim>\<open>p\<close> of the
  source is the field \<open>node_p\<close>. A property tested with \<^verbatim>\<open>in\<close> or against
  \<^verbatim>\<open>figma.mixed\<close> is a \<open>field\<close>; one that may be \<^verbatim>\<open>undefined\<close> is an option.
\<close>

record Props =
  node_type :: string
  node_name :: string
  node_visible :: bool
  node_x :: rat
  node_y :: rat
  node_width :: rat
  node_height :: rat
  node_opacity :: "rat option"
  node_fills :: "Paint list field"
  node_strokes :: "Paint list field"
  node_strokeWeight :: "rat field"
  node_cornerRadius :: "rat field"
  node_effects :: "Effect list field"
  node_layoutMode :: string
  node_primaryAxisAlignItems :: string
  node_counterAxisAlignItems :: string
  node_paddingLeft :: "rat option"
  node_paddingTop :: "rat option"
  node_paddingRight :: "rat option"
  node_paddingBottom :: "rat option"
  node_characters :: string
  node_fontName :: "FontName field"
  node_fontSize :: "rat field"
  node_lineHeight :: "Measure field"
  node_letterSpacing :: "Measure field"
  node_textAlignHorizontal :: "string option"

datatype SceneNode = SceneNode (props: Props) (children: "SceneNode list")

section \<open>Helper functions for styles\<close>

definition getBorderWidth :: "jsnum \<Rightarrow> SceneNode \<Rightarrow> string" where
  "getBorderWidth js node =
     (case node_strokeWeight (props node) of
        Val w \<Rightarrow> sliceNum js w @ ''px''
      | _ \<Rightarrow> ''0px'')"

definition getBorderColor :: "jsnum \<Rightarrow> SceneNode \<Rightarrow> string" where
  "getBorderColor js node =
     (case node_strokes (props node) of
        Val (p # ps) \<Rightarrow>
          if paint_type p = ''SOLID''
          then rgbaFromRGB js (paint_color p) (Some (orElse (paint_opacity p) 1))
          else ''transparent''
      | _ \<Rightarrow> ''transparent'')"

definition getBorderRadius :: "jsnum \<Rightarrow> SceneNode \<Rightarrow> string" where
  "getBorderRadius js node =
     (case node_cornerRadius (props node) of
        Val c \<Rightarrow> sliceNum js c @ ''px''
      | _ \<Rightarrow> ''0px'')"

definition getShadow :: "jsnum \<Rightarrow> SceneNode \<Rightarrow> string list" where
  "getShadow js node =
     (case node_effects (props node) of
        Val effects \<Rightarrow>
          map (\<lambda>effect.
                 sliceNum js (effect_offset_x effect) @ ''px ''
                 @ sliceNum js (effect_offset_y effect) @ ''px ''
                 @ sliceNum js (effect_radius effect) @ ''px ''
                 @ rgbaFromRGB js (effect_color effect) (effect_opacity effect))
            (filter (\<lambda>effect. effect_type effect = ''DROP_SHADOW'' \<and> effect_visible effect)
               effects)
      | _ \<Rightarrow> [])"

definition getPadding :: "jsnum \<Rightarrow> SceneNode \<Rightarrow> string" where
  "getPadding js node =
     (if node_paddingLeft (props node) \<noteq> None
      then sliceNum js (orElse (node_paddingTop (props node)) 0) @ ''px ''
        @ sliceNum js (orElse (node_paddingRight (props node)) 0) @ ''px ''
        @ sliceNum js (orElse (node_paddingBottom (props node)) 0) @ ''px ''
        @ sliceNum js (orElse (node_paddingLeft (props node)) 0) @ ''px''
      else ''0px'')"

definition getBackgroundColor :: "jsnum \<Rightarrow> SceneNode \<Rightarrow> string" where
  "getBackgroundColor js node =
     (case node_fills (props node) of
        Val (p # ps) \<Rightarrow>
          if paint_type p = ''SOLID''
          then rgbaFromRGB js (paint_color p) (Some (orElse (paint_opacity p) 1))
          else ''transparent''
      | _ \<Rightarrow> ''transparent'')"

section \<open>Main functions\<close>

definition supported :: "string \<Rightarrow> bool" where
  "supported t = (t \<in> set [''RECTANGLE'', ''ELLIPSE'', ''LINE'', ''TEXT'', ''VECTOR'', ''GROUP'',
     ''FRAME'', ''INSTANCE'', ''COMPONENT'', ''COMPONENT_SET'', ''SECTION''])"

text \<open>The \<^verbatim>\<open>map\<close> to the node or \<^verbatim>\<open>null\<close>, then the filter \<^verbatim>\<open>notEmpty\<close>.\<close>

definition convertIntoNodes :: "SceneNode list \<Rightarrow> SceneNode list" where
  "convertIntoNodes sceneNode =
     map the (filter (\<lambda>value. value \<noteq> None)
       (map (\<lambda>node. if supported (node_type (props node)) then Some node else None) sceneNode))"

definition componentName :: "SceneNode \<Rightarrow> string" where
  "componentName node =
     (if node_name (props node) \<noteq> [] then '' (Component Name: '' @ node_name (props node) @ '')''
      else [])"

definition generateContainerPrompt :: "jsnum \<Rightarrow> SceneNode \<Rightarrow> string" where
  "generateContainerPrompt js node =
     ''- A '' @ toLowerCase (node_type (props node)) @ componentName node
     @ '' with dimensions '' @ sliceNum js (node_width (props node))
     @ ''x'' @ sliceNum js (node_height (props node))
     @ ''px, positioned at ('' @ sliceNum js (node_x (props node))
     @ '','' @ sliceNum js (node_y (props node))
     @ '')px, with background color '' @ getBackgroundColor js node
     @ '', border width '' @ getBorderWidth js node
     @ '' color '' @ getBorderColor js node
     @ '', opacity at ''
     @ numberToString js (nearestOpacity js (orElse (node_opacity (props node)) 1))
     @ ''%, border radius '' @ getBorderRadius js node
     @ '', and shadow '' @ join '', '' (getShadow js node) @ ''.''"

definition generateTextPrompt :: "jsnum \<Rightarrow> SceneNode \<Rightarrow> string" where
  "generateTextPrompt js node =
     (let textContent = escapeNewlines (node_characters (props node));
          fontName = (case node_fontName (props node) of
                        Val f \<Rightarrow> \<lparr>family = family f, style = style f\<rparr>
                      | _ \<Rightarrow> \<lparr>family = ''Unknown'', style = ''Unknown''\<rparr>);
          fontSize = (case node_fontSize (props node) of Val z \<Rightarrow> z | _ \<Rightarrow> 0);
          lineHeight = (case node_lineHeight (props node) of
                          Val (WithUnit v u) \<Rightarrow>
                            if u = ''AUTO'' then ''auto'' else numberToString js v @ u
                        | Val (Bare v) \<Rightarrow> sliceNum js v
                        | _ \<Rightarrow> ''auto'');
          letterSpacing = (case node_letterSpacing (props node) of
                             Val (WithUnit v u) \<Rightarrow> numberToString js v @ u
                           | Val (Bare v) \<Rightarrow> sliceNum js v
                           | _ \<Rightarrow> ''normal'')
      in ''- Text node'' @ componentName node
         @ '' with content: '' @ [CHR 0x22] @ textContent @ [CHR 0x22]
         @ '', font size '' @ sliceNum js fontSize
         @ ''px, font family '' @ family fontName
         @ '', font style '' @ style fontName
         @ '', alignment ''
         @ (case node_textAlignHorizontal (props node) of
              None \<Rightarrow> ''LEFT'' | Some a \<Rightarrow> if a = [] then ''LEFT'' else a)
         @ '', color '' @ getBackgroundColor js node
         @ '', opacity at ''
         @ numberToString js (nearestOpacity js (orElse (node_opacity (props node)) 1))
         @ ''%, line height '' @ lineHeight
         @ '', and letter spacing '' @ letterSpacing @ ''.'')"

definition generateLinePrompt :: "jsnum \<Rightarrow> SceneNode \<Rightarrow> string" where
  "generateLinePrompt js node =
     (let strokeWeight = (case node_strokeWeight (props node) of Val w \<Rightarrow> w | _ \<Rightarrow> 0);
          opacity = (case node_opacity (props node) of Some v \<Rightarrow> v | None \<Rightarrow> 1)
      in ''- A line'' @ componentName node
         @ '' from ('' @ sliceNum js (node_x (props node))
         @ '','' @ sliceNum js (node_y (props node))
         @ '')px to ('' @ sliceNum js (fl js (node_x (props node) + node_width (props node)))
         @ '','' @ sliceNum js (fl js (node_y (props node) + node_height (props node)))
         @ '')px, with stroke width '' @ sliceNum js strokeWeight
         @ ''px, color '' @ getBorderColor js node
         @ '', and opacity at '' @ numberToString js (nearestOpacity js opacity) @ ''%.'')"

definition generateVectorPrompt :: "jsnum \<Rightarrow> SceneNode \<Rightarrow> string" where
  "generateVectorPrompt js node =
     ''- A vector node'' @ componentName node
     @ '' with dimensions '' @ sliceNum js (node_width (props node))
     @ ''x'' @ sliceNum js (node_height (props node))
     @ ''px, positioned at ('' @ sliceNum js (node_x (props node))
     @ '','' @ sliceNum js (node_y (props node)) @ '')px.''"

text \<open>What a frame says of its layout (\<^verbatim>\<open>layoutInfo\<close> in \<^verbatim>\<open>generateFramePrompt\<close>).\<close>

definition layoutInfo :: "jsnum \<Rightarrow> SceneNode \<Rightarrow> string" where
  "layoutInfo js node =
     (if node_layoutMode (props node) \<noteq> ''NONE''
      then ''Layout mode: '' @ node_layoutMode (props node)
        @ '', Alignment: '' @ node_primaryAxisAlignItems (props node)
        @ ''/'' @ node_counterAxisAlignItems (props node)
        @ '', Padding: '' @ getPadding js node
      else ''Layout mode: NONE'')"

lemma size_child_less: "child \<in> set cs \<Longrightarrow> size child < size_list size cs"
  by (induction cs) auto

text \<open>
  The renderer and the three container prompts call each other: a container renders
  each child by \<^verbatim>\<open>WidgetGenerator([child])\<close>.
\<close>

function WidgetGenerator :: "jsnum \<Rightarrow> SceneNode list \<Rightarrow> string"
  and generateGroupPrompt :: "jsnum \<Rightarrow> SceneNode \<Rightarrow> string"
  and generateFramePrompt :: "jsnum \<Rightarrow> SceneNode \<Rightarrow> string"
  and generateSectionPrompt :: "jsnum \<Rightarrow> SceneNode \<Rightarrow> string"
where
  "WidgetGenerator js sceneNode =
     join nl (map (\<lambda>node.
        if node_type (props node) = ''RECTANGLE'' \<or> node_type (props node) = ''ELLIPSE''
          then generateContainerPrompt js node
        else if node_type (props node) = ''GROUP'' then generateGroupPrompt js node
        else if node_type (props node) = ''FRAME'' \<or> node_type (props node) = ''COMPONENT''
             \<or> node_type (props node) = ''INSTANCE'' \<or> node_type (props node) = ''COMPONENT_SET''
          then generateFramePrompt js node
        else if node_type (props node) = ''TEXT'' then generateTextPrompt js node
        else if node_type (props node) = ''LINE'' then generateLinePrompt js node
        else if node_type (props node) = ''VECTOR'' then generateVectorPrompt js node
        else if node_type (props node) = ''SECTION'' then generateSectionPrompt js node
        else ''Unknown node type: '' @ node_type (props node))
      (filter (\<lambda>node. node_visible (props node)) sceneNode))"
| "generateGroupPrompt js node =
     (let childrenPrompts = join nl (map (\<lambda>child. WidgetGenerator js [child]) (children node))
      in ''- A group'' @ componentName node
         @ '' with '' @ numberToString js (of_nat (length (children node)))
         @ '' children, dimensions '' @ sliceNum js (node_width (props node))
         @ ''x'' @ sliceNum js (node_height (props node))
         @ ''px, positioned at ('' @ sliceNum js (node_x (props node))
         @ '','' @ sliceNum js (node_y (props node))
         @ '')px, with properties:'' @ nl @ indentString childrenPrompts 2)"
| "generateFramePrompt js node =
     (let childrenPrompts = join nl (map (\<lambda>child. WidgetGenerator js [child]) (children node))
      in ''- A '' @ toLowerCase (node_type (props node)) @ '' frame'' @ componentName node
         @ '' with '' @ numberToString js (of_nat (length (children node)))
         @ '' children, dimensions '' @ sliceNum js (node_width (props node))
         @ ''x'' @ sliceNum js (node_height (props node))
         @ ''px, positioned at ('' @ sliceNum js (node_x (props node))
         @ '','' @ sliceNum js (node_y (props node))
         @ '')px, '' @ layoutInfo js node @ '':'' @ nl @ indentString childrenPrompts 2)"
| "generateSectionPrompt js node =
     (let childrenPrompts = join nl (map (\<lambda>child. WidgetGenerator js [child]) (children node))
      in ''- A section node'' @ componentName node
         @ '' with '' @ numberToString js (of_nat (length (children node)))
         @ '' children, dimensions '' @ sliceNum js (node_width (props node))
         @ ''x'' @ sliceNum js (node_height (props node))
         @ ''px, positioned at ('' @ sliceNum js (node_x (props node))
         @ '','' @ sliceNum js (node_y (props node))
         @ '')px:'' @ nl @ indentString childrenPrompts 2)"
  by pat_completeness auto

termination
proof (relation "measure (\<lambda>v. case v of
    Inl (Inl (js, sceneNode)) \<Rightarrow> size_list size sceneNode
  | Inl (Inr (js, node)) \<Rightarrow> size node
  | Inr (Inl (js, node)) \<Rightarrow> size node
  | Inr (Inr (js, node)) \<Rightarrow> size node)", goal_cases)
  case 1
  show ?case by simp
next
  case (2 js sceneNode node)
  then show ?case by (simp add: size_child_less)
next
  case (3 js sceneNode node)
  then show ?case by (simp add: size_child_less)
next
  case (4 js sceneNode node)
  then show ?case by (simp add: size_child_less)
next
  case (5 js node child)
  then show ?case by (cases node) (simp add: size_child_less)
next
  case (6 js node child)
  then show ?case by (cases node) (simp add: size_child_less)
next
  case (7 js node child)
  then show ?case by (cases node) (simp add: size_child_less)
qed

declare WidgetGenerator.simps [simp del] generateGroupPrompt.simps [simp del]
  generateFramePrompt.simps [simp del] generateSectionPrompt.simps [simp del]

definition Main :: "jsnum \<Rightarrow> SceneNode list \<Rightarrow> string" where
  "Main js sceneNode = WidgetGenerator js sceneNode"

section \<open>Entry point for generating prompts\<close>

record Message =
  msg_type :: string
  msg_framework :: string
  msg_database :: string
  msg_description :: string

text \<open>The lines appended to \<^verbatim>\<open>output\<close> before the layout section.\<close>

definition overview :: "Message \<Rightarrow> string" where
  "overview msg =
     ''Create a reusable and performant '' @ msg_framework msg
       @ '' Component with the following specifications, add it to the existing project or create a new ''
       @ msg_framework msg @ '' project:'' @ nl @ nl
     @ ''### Overview:'' @ nl
     @ ''- **Description**: '' @ msg_description msg @ nl
     @ ''- **Type**: A '' @ msg_framework msg
       @ '' that includes all underlying components and instances.'' @ nl
     @ ''- **Framework**: '' @ msg_framework msg
       @ '' (use appropriate syntax for type safety) Typescript if the framework supports it'' @ nl
     @ ''- **Accessibility**: Ensure all components are accessible by using appropriate ARIA attributes.''
       @ nl
     @ ''- **Performance**: Optimize the code for performance, following the selected framework's best practices.''
       @ nl
     @ ''- **Reusability**: All components and styles must be reusable.'' @ nl
     @ ''- **Global CSS**: All CSS must be stored in a single global CSS file or theme file.'' @ nl
     @ (if msg_database msg \<noteq> [] \<and> msg_database msg \<noteq> ''null''
        then ''- **Database**: Privide the  '' @ msg_database msg
          @ '' schema to create the database table. for any input fields.'' @ nl @ nl
        else [])"

text \<open>The lines appended after the layout section.\<close>

definition implementationAndUsage :: "Message \<Rightarrow> string" where
  "implementationAndUsage msg =
     ''### Implementation:'' @ nl
     @ ''- Create all underlying components with their different variations.'' @ nl
     @ ''- Use '' @ msg_framework msg
       @ '' hooks like `useState` for managing internal state if necessary, particularly for managing hover effects if not using CSS hover.''
       @ nl
     @ ''- Ensure the component uses flexbox for aligning icon and text horizontally (if applicable).''
       @ nl
     @ ''- Use `role` attributes where necessary to define the semantic role of the elements.'' @ nl
     @ ''- Use `aria-label` to provide descriptive labels for interactive elements.'' @ nl
     @ ''- Use `aria-expanded` for elements that expand or collapse content.'' @ nl
     @ ''- Follow the selected framework's coding best practices and standards.'' @ nl
     @ ''- All styles must be defined in a global CSS file or theme file and applied using CSS classes.''
       @ nl
     @ ''- Swap the text icon with a randomly selected icon.'' @ nl
     @ ''- Add validation for the input fields.'' @ nl @ nl
     @ ''### Usage:'' @ nl
     @ ''- Include the component in your application.'' @ nl
     @ ''- Use the component as needed in your application.'' @ nl
     @ ''- Ensure the component is responsive and works on all screen sizes.'' @ nl
     @ ''- Test the component on different browsers and devices to ensure compatibility.'' @ nl
     @ ''- Ensure the component is accessible and meets all WCAG standards.'' @ nl
     @ ''- Ensure the component is performant and does not impact the application's performance.''
       @ nl
     @ ''- Ensure the component is reusable and can be used in different parts of the application.''
       @ nl @ nl"

text \<open>
  \<^verbatim>\<open>figma.ui.onmessage\<close>, given the selection of the current page (\<open>None\<close> when it is
  absent): the prompt posted to the UI, or \<open>None\<close> when nothing is posted.
\<close>

definition onmessage :: "jsnum \<Rightarrow> SceneNode list option \<Rightarrow> Message \<Rightarrow> string option" where
  "onmessage js selection msg =
     (if msg_type msg = ''generate'' then
        (case selection of
           None \<Rightarrow> Some ''No nodes selected.''
         | Some currentpage \<Rightarrow>
             if length currentpage = 0 then Some ''No nodes selected.''
             else
               let convertedSelection = convertIntoNodes currentpage;
                   prompt = Main js convertedSelection
               in Some (overview msg
                    @ ''### Layout:'' @ nl
                    @ ''- This layout is created based on the selected nodes from Figma.'' @ nl
                    @ prompt
                    @ implementationAndUsage msg))
      else None)"

section \<open>Notions of the specification\<close>

text \<open>
  The definitions of this section are not taken from the plugin: they say what the
  specification's words mean, so that the plugin can be compared with them.
\<close>

text \<open>The first solid entry of a list of paints.\<close>

definition isSolid :: "Paint \<Rightarrow> bool" where
  "isSolid p = (paint_type p = ''SOLID'')"

definition firstSolid :: "Paint list \<Rightarrow> Paint option" where
  "firstSolid ps = find isSolid ps"

text \<open>
  The lines of a text, each with the line terminator that ends it (none after the last
  line), and what a non-blank line is.
\<close>

fun linesOf :: "string \<Rightarrow> (string \<times> string) list" where
  "linesOf [] = [([], [])]"
| "linesOf (c # cs) =
     (if isLineTerminator c then ([], [c]) # linesOf cs
      else (case linesOf cs of
              [] \<Rightarrow> [([c], [])]
            | (line, eol) # rest \<Rightarrow> (c # line, eol) # rest))"

definition nonBlank :: "string \<Rightarrow> bool" where
  "nonBlank line = (\<exists>c \<in> set line. \<not> isSpace c)"

definition indentLine :: "nat \<Rightarrow> string \<times> string \<Rightarrow> string" where
  "indentLine n le =
     (if nonBlank (fst le) then replicate n (CHR '' '') @ fst le else fst le) @ snd le"

text \<open>
  The child block of a container: what \<^verbatim>\<open>generateGroupPrompt\<close>,
  \<^verbatim>\<open>generateFramePrompt\<close> and \<^verbatim>\<open>generateSectionPrompt\<close> put after their own line.
\<close>

definition childBlock :: "jsnum \<Rightarrow> SceneNode \<Rightarrow> string" where
  "childBlock js node =
     indentString (join nl (map (\<lambda>child. WidgetGenerator js [child]) (children node))) 2"

definition isVisible :: "SceneNode \<Rightarrow> bool" where
  "isVisible node = node_visible (props node)"

text \<open>A tree without its invisible nodes, at every depth.\<close>

fun prune :: "SceneNode \<Rightarrow> SceneNode" where
  "prune (SceneNode p cs) = SceneNode p (map prune (filter isVisible cs))"

definition pruneAll :: "SceneNode list \<Rightarrow> SceneNode list" where
  "pruneAll sceneNode = map prune (filter isVisible sceneNode)"

section \<open>Sample values\<close>

definition red :: RGB where
  "red = \<lparr>rgb_r = 1, rgb_g = 0, rgb_b = 0\<rparr>"

definition solid :: "rat option \<Rightarrow> Paint" where
  "solid a = \<lparr>paint_type = ''SOLID'', paint_color = red, paint_opacity = a\<rparr>"

definition gradient :: Paint where
  "gradient = \<lparr>paint_type = ''GRADIENT_LINEAR'', paint_color = red, paint_opacity = None\<rparr>"

text \<open>A visible, unnamed rectangle of 10 by 20 at the origin, without any style.\<close>

definition sample :: Props where
  "sample = \<lparr>node_type = ''RECTANGLE'', node_name = '''', node_visible = True,
     node_x = 0, node_y = 0, node_width = 10, node_height = 20, node_opacity = Some 1,
     node_fills = Absent, node_strokes = Absent, node_strokeWeight = Absent,
     node_cornerRadius = Absent, node_effects = Absent, node_layoutMode = ''NONE'',
     node_primaryAxisAlignItems = ''MIN'', node_counterAxisAlignItems = ''MIN'',
     node_paddingLeft = None, node_paddingTop = None, node_paddingRight = None,
     node_paddingBottom = None, node_characters = '''', node_fontName = Absent,
     node_fontSize = Absent, node_lineHeight = Absent, node_letterSpacing = Absent,
     node_textAlignHorizontal = None\<rparr>"

text \<open>A visible node of a given kind, and an invisible rectangle.\<close>

definition ofKind :: "string \<Rightarrow> SceneNode list \<Rightarrow> SceneNode" where
  "ofKind t cs = SceneNode (sample\<lparr>node_type := t\<rparr>) cs"

definition hidden :: "SceneNode list \<Rightarrow> SceneNode" where
  "hidden cs = SceneNode (sample\<lparr>node_visible := False\<rparr>) cs"

text \<open>
  A tree in which every invisible node, at any depth, has been replaced by the bare
  invisible rectangle: nothing of the node is left but its place.
\<close>

fun hollow :: "SceneNode \<Rightarrow> SceneNode" where
  "hollow (SceneNode p cs) =
     (if node_visible p then SceneNode p (map hollow cs) else hidden [])"

definition generateMsg :: Message where
  "generateMsg = \<lparr>msg_type = ''generate'', msg_framework = ''React'',
     msg_database = ''null'', msg_description = ''A card''\<rparr>"

section \<open>Number formatting\<close>

lemma digitsNat_small: "n < 10 \<Longrightarrow> digitsNat n = [digitChar n]"
  by (simp add: digitsNat.simps)

lemma digitsNat_large: "10 \<le> n \<Longrightarrow> digitsNat n = digitsNat (n div 10) @ [digitChar (n mod 10)]"
  by (subst digitsNat.simps) simp

lemma digitsNat_two:
  assumes "100 \<le> n"
  shows "digitsNat n = digitsNat (n div 100) @ [digitChar (n mod 100 div 10), digitChar (n mod 10)]"
proof -
  have a: "digitsNat n = digitsNat (n div 10) @ [digitChar (n mod 10)]"
    using assms by (simp add: digitsNat_large)
  have "10 \<le> n div 10" using assms by linarith
  then have b: "digitsNat (n div 10) = digitsNat (n div 10 div 10) @ [digitChar (n div 10 mod 10)]"
    by (rule digitsNat_large)
  have c: "n div 10 div 10 = n div 100" using div_mult2_eq [of n 10 10] by simp
  have d: "n div 10 mod 10 = n mod 100 div 10" using mod_mult2_eq [of n 10 10] by simp
  show ?thesis by (simp only: a b c d append_Cons append_Nil append_assoc)
qed

lemma digitsNat_nonempty: "digitsNat n \<noteq> []"
  by (subst digitsNat.simps) simp

lemma digitChar_zero: "d < 10 \<Longrightarrow> (digitChar d = CHR ''0'') = (d = 0)"
proof -
  assume "d < 10"
  then consider "d = 0" | "d = 1" | "d = 2" | "d = 3" | "d = 4" | "d = 5" | "d = 6" | "d = 7"
    | "d = 8" | "d = 9" by force
  then show ?thesis by cases (simp_all add: digitChar_def)
qed

text \<open>The padding and the point of \<open>toFixed2\<close>, in terms of the quotient and the two digits.\<close>

lemma padded_digits:
  "(let m0 = digitsNat n;
        m = (if length m0 \<le> 2 then replicate (3 - length m0) (CHR ''0'') @ m0 else m0);
        k = length m
    in take (k - 2) m @ ''.'' @ drop (k - 2) m)
   = digitsNat (n div 100) @ ''.'' @ [digitChar (n mod 100 div 10), digitChar (n mod 10)]"
proof -
  consider "n < 10" | "10 \<le> n" "n < 100" | "100 \<le> n" by linarith
  then show ?thesis
  proof cases
    case 1
    then show ?thesis by (simp add: digitsNat_small Let_def digitChar_def)
  next
    case 2
    then have "n div 10 < 10" by simp
    with 2 show ?thesis
      by (simp add: digitsNat_large digitsNat_small Let_def numeral_3_eq_3 digitChar_def)
  next
    case 3
    have "digitsNat (n div 100) \<noteq> []" by (rule digitsNat_nonempty)
    then have "0 < length (digitsNat (n div 100))" by simp
    with 3 show ?thesis by (simp add: digitsNat_two Let_def)
  qed
qed

lemma toFixed2_eq:
  assumes "\<bar>x\<bar> < 10 ^ 21"
  shows "toFixed2 js x =
    (if x < 0 then ''-'' else '''') @ digitsNat (nat \<lfloor>\<bar>x\<bar> * 100 + 1 / 2\<rfloor> div 100) @ ''.''
      @ [digitChar (nat \<lfloor>\<bar>x\<bar> * 100 + 1 / 2\<rfloor> mod 100 div 10),
         digitChar (nat \<lfloor>\<bar>x\<bar> * 100 + 1 / 2\<rfloor> mod 10)]"
proof -
  have "\<not> 10 ^ 21 \<le> \<bar>x\<bar>" using assms by simp
  then show ?thesis
    unfolding toFixed2_def Let_def
    using padded_digits [of "nat \<lfloor>\<bar>x\<bar> * 100 + 1 / 2\<rfloor>", unfolded Let_def]
    by simp
qed

lemma strip_point_zeros:
  "(let s = a @ ''.'' @ [c, d] in if endsWith s ''.00'' then take (length s - 3) s else s)
     = (if c = CHR ''0'' \<and> d = CHR ''0'' then a else a @ ''.'' @ [c, d])"
  by (auto simp add: endsWith_def Let_def)

lemma sliceNum_two_decimals:
  assumes "\<bar>x\<bar> < 10 ^ 21"
  shows "sliceNum js x =
    (if x < 0 then ''-'' else '''') @ digitsNat (nat \<lfloor>\<bar>x\<bar> * 100 + 1 / 2\<rfloor> div 100)
      @ (if nat \<lfloor>\<bar>x\<bar> * 100 + 1 / 2\<rfloor> mod 100 = 0 then []
         else ''.'' @ [digitChar (nat \<lfloor>\<bar>x\<bar> * 100 + 1 / 2\<rfloor> mod 100 div 10),
                      digitChar (nat \<lfloor>\<bar>x\<bar> * 100 + 1 / 2\<rfloor> mod 10)])"
proof -
  define n where "n = nat \<lfloor>\<bar>x\<bar> * 100 + 1 / 2\<rfloor>"
  define sg where "sg = (if x < 0 then ''-'' else '''')"
  have d1: "n mod 100 div 10 < 10" by (rule less_mult_imp_div_less) simp
  have d0: "n mod 10 < 10" by simp
  have "(n mod 100 div 10 = 0 \<and> n mod 10 = 0) = (n mod 100 = 0)"
    using mod_mult2_eq [of n 10 10] by auto
  then have z: "(digitChar (n mod 100 div 10) = CHR ''0'' \<and> digitChar (n mod 10) = CHR ''0'')
      = (n mod 100 = 0)"
    by (simp only: digitChar_zero [OF d1] digitChar_zero [OF d0])
  have "sliceNum js x =
      (let s = (sg @ digitsNat (n div 100)) @ ''.''
                 @ [digitChar (n mod 100 div 10), digitChar (n mod 10)]
       in if endsWith s ''.00'' then take (length s - 3) s else s)"
    unfolding sliceNum_def toFixed2_eq [OF assms] n_def [symmetric] sg_def by simp
  also have "\<dots> = (if n mod 100 = 0 then sg @ digitsNat (n div 100)
      else (sg @ digitsNat (n div 100)) @ ''.''
                 @ [digitChar (n mod 100 div 10), digitChar (n mod 10)])"
    by (simp only: strip_point_zeros z)
  finally show ?thesis unfolding n_def sg_def by simp
qed

lemma sliceNum_large:
  assumes "10 ^ 21 \<le> \<bar>x\<bar>"
  shows "sliceNum js x =
    (let s = (if x < 0 then ''-'' else '''') @ toStr js \<bar>x\<bar>
     in if endsWith s ''.00'' then take (length s - 3) s else s)"
proof -
  have "(2 :: rat) ^ 53 \<le> 10 ^ 21" by simp
  with assms have "\<not> \<bar>x\<bar> < 2 ^ 53" by linarith
  with assms show ?thesis
    by (simp add: sliceNum_def toFixed2_def numberToString_def Let_def)
qed

text \<open>
  C1 (as amended). For a number of magnitude below \<open>10^21\<close>, \<open>sliceNum\<close> prints the sign and
  the integer nearest to 100 times the magnitude (a tie going up) with two decimals,
  and drops the point and the decimals exactly when both decimals are zero. A single
  trailing zero stays: 12 is printed as \<open>12\<close>, and 12.5 as \<open>12.50\<close>. A number of
  magnitude \<open>10^21\<close> or more is printed as \<^verbatim>\<open>Number::toString\<close> prints it. The result
  is a function of the number alone.
\<close>

theorem sliceNum_rounds_and_strips:
  "(\<bar>x\<bar> < 10 ^ 21 \<longrightarrow>
      sliceNum js x =
        (if x < 0 then ''-'' else '''') @ digitsNat (nat \<lfloor>\<bar>x\<bar> * 100 + 1 / 2\<rfloor> div 100)
          @ (if nat \<lfloor>\<bar>x\<bar> * 100 + 1 / 2\<rfloor> mod 100 = 0 then []
             else ''.'' @ [digitChar (nat \<lfloor>\<bar>x\<bar> * 100 + 1 / 2\<rfloor> mod 100 div 10),
                          digitChar (nat \<lfloor>\<bar>x\<bar> * 100 + 1 / 2\<rfloor> mod 10)]))
   \<and> (10 ^ 21 \<le> \<bar>x\<bar> \<longrightarrow>
      sliceNum js x =
        (let s = (if x < 0 then ''-'' else '''') @ toStr js \<bar>x\<bar>
         in if endsWith s ''.00'' then take (length s - 3) s else s))
   \<and> sliceNum js 12 = ''12'' \<and> sliceNum js (25 / 2) = ''12.50''"
proof (intro conjI impI)
  assume "\<bar>x\<bar> < 10 ^ 21"
  then show "sliceNum js x =
      (if x < 0 then ''-'' else '''') @ digitsNat (nat \<lfloor>\<bar>x\<bar> * 100 + 1 / 2\<rfloor> div 100)
        @ (if nat \<lfloor>\<bar>x\<bar> * 100 + 1 / 2\<rfloor> mod 100 = 0 then []
           else ''.'' @ [digitChar (nat \<lfloor>\<bar>x\<bar> * 100 + 1 / 2\<rfloor> mod 100 div 10),
                        digitChar (nat \<lfloor>\<bar>x\<bar> * 100 + 1 / 2\<rfloor> mod 10)])"
    by (rule sliceNum_two_decimals)
next
  assume "10 ^ 21 \<le> \<bar>x\<bar>"
  then show "sliceNum js x =
      (let s = (if x < 0 then ''-'' else '''') @ toStr js \<bar>x\<bar>
       in if endsWith s ''.00'' then take (length s - 3) s else s)"
    by (rule sliceNum_large)
next
  show "sliceNum js 12 = ''12''" by code_simp
  show "sliceNum js (25 / 2) = ''12.50''" by code_simp
qed

theorem sliceNum_rounds_and_strips_witness:
  "\<bar>99 / 8 :: rat\<bar> < 10 ^ 21 \<and> sliceNum exact (99 / 8) = ''12.38''
   \<and> \<bar>- 1 / 256 :: rat\<bar> < 10 ^ 21 \<and> sliceNum exact (- 1 / 256) = ''-0''"
proof -
  have h: "\<bar>99 / 8 :: rat\<bar> < 10 ^ 21" by simp
  have k: "\<bar>- 1 / 256 :: rat\<bar> < 10 ^ 21" by simp
  have a: "sliceNum exact (99 / 8) = ''12.38''"
    by (subst sliceNum_rounds_and_strips [THEN conjunct1, rule_format, OF h]) code_simp
  have b: "sliceNum exact (- 1 / 256) = ''-0''"
    by (subst sliceNum_rounds_and_strips [THEN conjunct1, rule_format, OF k]) code_simp
  from h a k b show ?thesis by (simp only: simp_thms)
qed

text \<open>The claim as stated fails at 12.5, which is printed with both decimals.\<close>

theorem sliceNum_half_counterexample:
  "sliceNum exact (25 / 2) \<noteq> ''12.5''"
  by code_simp

section \<open>Colours\<close>

lemma rgba_not_transparent: "rgbaFromRGB js c a \<noteq> ''transparent''"
  by (simp add: rgbaFromRGB_def Let_def)

text \<open>
  C2 (as amended). \<open>getBackgroundColor\<close> looks at the first entry of the fill list only.
  When that entry is solid (it is then the first solid entry of the list) and its
  opacity is not 0, it returns the rgba rendering of the entry's colour with the
  entry's own opacity, 1 when none is supplied. It returns \<open>transparent\<close> exactly when
  the list is absent, mixed or empty, or its first entry is not solid. \<open>getBorderColor\<close>
  does the same over the stroke list.
\<close>

theorem first_entry_color:
  "(\<forall>p ps. node_fills (props node) = Val (p # ps) \<and> paint_type p = ''SOLID''
        \<and> paint_opacity p \<noteq> Some 0 \<longrightarrow>
      getBackgroundColor js node =
        rgbaFromRGB js (paint_color p) (Some (case paint_opacity p of None \<Rightarrow> 1 | Some v \<Rightarrow> v)))
   \<and> ((getBackgroundColor js node = ''transparent'') =
        (\<not> (\<exists>p ps. node_fills (props node) = Val (p # ps) \<and> paint_type p = ''SOLID'')))
   \<and> (\<forall>p ps. node_strokes (props node) = Val (p # ps) \<and> paint_type p = ''SOLID''
        \<and> paint_opacity p \<noteq> Some 0 \<longrightarrow>
      getBorderColor js node =
        rgbaFromRGB js (paint_color p) (Some (case paint_opacity p of None \<Rightarrow> 1 | Some v \<Rightarrow> v)))
   \<and> ((getBorderColor js node = ''transparent'') =
        (\<not> (\<exists>p ps. node_strokes (props node) = Val (p # ps) \<and> paint_type p = ''SOLID'')))
   \<and> (paint_type paint = ''SOLID'' \<longrightarrow> firstSolid (paint # paints) = Some paint)"
proof (intro conjI allI impI)
  assume "paint_type paint = ''SOLID''"
  then show "firstSolid (paint # paints) = Some paint"
    by (simp add: firstSolid_def isSolid_def)
next
  fix p ps
  assume "node_fills (props node) = Val (p # ps) \<and> paint_type p = ''SOLID''
      \<and> paint_opacity p \<noteq> Some 0"
  then show "getBackgroundColor js node =
        rgbaFromRGB js (paint_color p) (Some (case paint_opacity p of None \<Rightarrow> 1 | Some v \<Rightarrow> v))"
    by (auto simp add: getBackgroundColor_def orElse_def split: option.splits)
next
  show "(getBackgroundColor js node = ''transparent'') =
        (\<not> (\<exists>p ps. node_fills (props node) = Val (p # ps) \<and> paint_type p = ''SOLID''))"
    by (simp add: getBackgroundColor_def rgba_not_transparent split: field.splits list.splits)
next
  fix p ps
  assume "node_strokes (props node) = Val (p # ps) \<and> paint_type p = ''SOLID''
      \<and> paint_opacity p \<noteq> Some 0"
  then show "getBorderColor js node =
        rgbaFromRGB js (paint_color p) (Some (case paint_opacity p of None \<Rightarrow> 1 | Some v \<Rightarrow> v))"
    by (auto simp add: getBorderColor_def orElse_def split: option.splits)
next
  show "(getBorderColor js node = ''transparent'') =
        (\<not> (\<exists>p ps. node_strokes (props node) = Val (p # ps) \<and> paint_type p = ''SOLID''))"
    by (simp add: getBorderColor_def rgba_not_transparent split: field.splits list.splits)
qed

theorem first_entry_color_witness:
  "node_fills (props (SceneNode (sample\<lparr>node_fills := Val [solid (Some 1), gradient]\<rparr>) []))
      = Val (solid (Some 1) # [gradient])
   \<and> paint_type (solid (Some 1)) = ''SOLID''
   \<and> paint_opacity (solid (Some 1)) \<noteq> Some 0
   \<and> getBackgroundColor exact (SceneNode (sample\<lparr>node_fills := Val [solid (Some 1), gradient]\<rparr>) [])
      = ''rgba(255, 0, 0, 1)''
   \<and> node_strokes (props (SceneNode (sample\<lparr>node_strokes := Val [solid None]\<rparr>) []))
      = Val (solid None # [])
   \<and> paint_type (solid None) = ''SOLID''
   \<and> paint_opacity (solid None) \<noteq> Some 0
   \<and> getBorderColor exact (SceneNode (sample\<lparr>node_strokes := Val [solid None]\<rparr>) [])
      = ''rgba(255, 0, 0, 1)''"
proof -
  let ?n = "SceneNode (sample\<lparr>node_fills := Val [solid (Some 1), gradient]\<rparr>) []"
  let ?m = "SceneNode (sample\<lparr>node_strokes := Val [solid None]\<rparr>) []"
  have h: "node_fills (props ?n) = Val (solid (Some 1) # [gradient])
      \<and> paint_type (solid (Some 1)) = ''SOLID''
      \<and> paint_opacity (solid (Some 1)) \<noteq> Some 0"
    by (simp add: solid_def)
  have k: "node_strokes (props ?m) = Val (solid None # [])
      \<and> paint_type (solid None) = ''SOLID''
      \<and> paint_opacity (solid None) \<noteq> Some 0"
    by (simp add: solid_def)
  have e: "rgbaFromRGB exact (paint_color (solid (Some 1)))
          (Some (case paint_opacity (solid (Some 1)) of None \<Rightarrow> 1 | Some v \<Rightarrow> v))
        = ''rgba(255, 0, 0, 1)''"
    by code_simp
  have f: "rgbaFromRGB exact (paint_color (solid None))
          (Some (case paint_opacity (solid None) of None \<Rightarrow> 1 | Some v \<Rightarrow> v))
        = ''rgba(255, 0, 0, 1)''"
    by code_simp
  from first_entry_color [of ?n exact, THEN conjunct1, rule_format, OF h] e
  have a: "getBackgroundColor exact ?n = ''rgba(255, 0, 0, 1)''"
    by (simp only:)
  from first_entry_color [of ?m exact, THEN conjunct2, THEN conjunct2, THEN conjunct1,
      rule_format, OF k] f
  have b: "getBorderColor exact ?m = ''rgba(255, 0, 0, 1)''"
    by (simp only:)
  from h a k b show ?thesis by (simp only: simp_thms)
qed

text \<open>
  The claim as stated fails for a list whose first solid entry is not its first entry:
  the list holds a solid entry, and the result is \<open>transparent\<close>.
\<close>

theorem later_solid_counterexample:
  "firstSolid [gradient, solid None] = Some (solid None)
   \<and> getBackgroundColor exact (SceneNode (sample\<lparr>node_fills := Val [gradient, solid None]\<rparr>) [])
       = ''transparent''
   \<and> getBorderColor exact (SceneNode (sample\<lparr>node_strokes := Val [gradient, solid None]\<rparr>) [])
       = ''transparent''"
  by code_simp

section \<open>Indentation\<close>

lemma linesOf_nonempty: "linesOf s \<noteq> []"
  by (induction s) (auto split: list.splits)

lemma linesOf_Cons_terminator:
  "isLineTerminator c \<Longrightarrow> linesOf (c # cs) = ([], [c]) # linesOf cs"
  by simp

lemma linesOf_Cons_other:
  "\<not> isLineTerminator c \<Longrightarrow>
   linesOf (c # cs) = (c # fst (hd (linesOf cs)), snd (hd (linesOf cs))) # tl (linesOf cs)"
  using linesOf_nonempty [of cs] by (cases "linesOf cs") auto

lemma concat_map_hd_tl:
  "xs \<noteq> [] \<Longrightarrow> concat (map f xs) = f (hd xs) @ concat (map f (tl xs))"
  by (cases xs) auto

lemma nonBlank_Nil: "\<not> nonBlank []"
  by (simp add: nonBlank_def)

lemma nonBlank_Cons: "nonBlank (c # line) = (\<not> isSpace c \<or> nonBlank line)"
  by (simp add: nonBlank_def)

lemma blankAhead_first_line: "blankAhead s = (\<not> nonBlank (fst (hd (linesOf s))))"
proof (induction s)
  case Nil
  show ?case by (simp add: nonBlank_Nil)
next
  case (Cons c cs)
  show ?case
  proof (cases "isLineTerminator c")
    case True
    then show ?thesis by (simp add: nonBlank_Nil)
  next
    case False
    then show ?thesis
      using Cons.IH by (simp add: linesOf_Cons_other nonBlank_Cons del: linesOf.simps)
  qed
qed

lemma replaceLineStarts_lines:
  "replaceLineStarts (replicate n (CHR '' '')) atStart s =
     (if atStart \<and> nonBlank (fst (hd (linesOf s))) then replicate n (CHR '' '') else [])
       @ fst (hd (linesOf s)) @ snd (hd (linesOf s))
       @ concat (map (indentLine n) (tl (linesOf s)))"
proof (induction s arbitrary: atStart)
  case Nil
  show ?case by (simp add: nonBlank_Nil)
next
  case (Cons c cs)
  show ?case
  proof (cases "isLineTerminator c")
    case True
    have "replaceLineStarts (replicate n (CHR '' '')) atStart (c # cs) =
        c # replaceLineStarts (replicate n (CHR '' '')) True cs"
      using True by simp
    also have "\<dots> = c # (indentLine n (hd (linesOf cs))
        @ concat (map (indentLine n) (tl (linesOf cs))))"
      by (simp add: Cons.IH [of True] indentLine_def [of n "hd (linesOf cs)"])
    also have "\<dots> = c # concat (map (indentLine n) (linesOf cs))"
      by (simp only: concat_map_hd_tl [OF linesOf_nonempty, symmetric])
    finally show ?thesis
      using True by (simp add: linesOf_Cons_terminator nonBlank_Nil del: linesOf.simps)
  next
    case False
    have "blankAhead (c # cs) = (\<not> nonBlank (c # fst (hd (linesOf cs))))"
      using False by (simp add: blankAhead_first_line [of cs] nonBlank_Cons)
    with False show ?thesis
      by (simp add: Cons.IH [of False] linesOf_Cons_other del: blankAhead.simps linesOf.simps)
  qed
qed

lemma indentString_lines: "indentString s n = concat (map (indentLine n) (linesOf s))"
proof -
  have "indentString s n = indentLine n (hd (linesOf s))
      @ concat (map (indentLine n) (tl (linesOf s)))"
    by (simp add: indentString_def replaceLineStarts_lines indentLine_def [of n "hd (linesOf s)"])
  also have "\<dots> = concat (map (indentLine n) (linesOf s))"
    by (simp only: concat_map_hd_tl [OF linesOf_nonempty, symmetric])
  finally show ?thesis .
qed

lemma linesOf_concat: "concat (map (\<lambda>le. fst le @ snd le) (linesOf s)) = s"
proof (induction s)
  case Nil
  show ?case by simp
next
  case (Cons c cs)
  have "fst (hd (linesOf cs)) @ snd (hd (linesOf cs))
          @ concat (map (\<lambda>le. fst le @ snd le) (tl (linesOf cs))) = cs"
    using concat_map_hd_tl [OF linesOf_nonempty, of "\<lambda>le. fst le @ snd le" cs] Cons.IH
    by simp
  with Cons.IH show ?case
    by (cases "isLineTerminator c")
      (simp_all add: linesOf_Cons_other linesOf_Cons_terminator del: linesOf.simps)
qed

lemma linesOf_shape:
  "le \<in> set (linesOf s) \<Longrightarrow>
     (\<forall>c \<in> set (fst le). \<not> isLineTerminator c)
     \<and> (snd le = [] \<or> (\<exists>c. snd le = [c] \<and> isLineTerminator c))"
proof (induction s arbitrary: le)
  case Nil
  then show ?case by simp
next
  case (Cons c cs)
  show ?case
  proof (cases "isLineTerminator c")
    case True
    with Cons.prems consider "le = ([], [c])" | "le \<in> set (linesOf cs)"
      by (auto simp add: linesOf_Cons_terminator simp del: linesOf.simps)
    then show ?thesis
    proof cases
      case 1
      with True show ?thesis by simp
    next
      case 2
      then show ?thesis by (rule Cons.IH)
    qed
  next
    case False
    have hd_in: "hd (linesOf cs) \<in> set (linesOf cs)"
      using linesOf_nonempty [of cs] by simp
    have tl_in: "set (tl (linesOf cs)) \<subseteq> set (linesOf cs)"
      using linesOf_nonempty [of cs] by (cases "linesOf cs") auto
    from Cons.prems False
    consider "le = (c # fst (hd (linesOf cs)), snd (hd (linesOf cs)))" | "le \<in> set (tl (linesOf cs))"
      by (auto simp add: linesOf_Cons_other simp del: linesOf.simps)
    then show ?thesis
    proof cases
      case 1
      with Cons.IH [OF hd_in] False show ?thesis by simp
    next
      case 2
      with tl_in have "le \<in> set (linesOf cs)" by blast
      then show ?thesis by (rule Cons.IH)
    qed
  qed
qed

text \<open>
  C8. For every string and every indent width, \<open>indentString\<close> prefixes each non-blank
  line (a line with at least one character that is not white space) with exactly that
  many spaces and leaves each blank line as it is. The lines of the string are the
  runs between line terminators; put back together they are the string. A block of
  three lines whose middle line is blank, indented by 2, has only its first and last
  line prefixed, with exactly 2 spaces.
\<close>

theorem indentString_prefixes_nonblank_lines:
  "indentString s n = concat (map (indentLine n) (linesOf s))
   \<and> concat (map (\<lambda>le. fst le @ snd le) (linesOf s)) = s
   \<and> (\<forall>le \<in> set (linesOf s).
        (\<forall>c \<in> set (fst le). \<not> isLineTerminator c)
        \<and> (snd le = [] \<or> (\<exists>c. snd le = [c] \<and> isLineTerminator c))
        \<and> indentLine n le =
            (if \<exists>c \<in> set (fst le). \<not> isSpace c then replicate n (CHR '' '') @ fst le else fst le)
              @ snd le)
   \<and> indentString (''first'' @ nl @ '' '' @ nl @ ''last'') 2
       = ''  first'' @ nl @ '' '' @ nl @ ''  last''"
proof -
  have a: "indentString s n = concat (map (indentLine n) (linesOf s))"
    by (rule indentString_lines)
  have b: "concat (map (\<lambda>le. fst le @ snd le) (linesOf s)) = s"
    by (rule linesOf_concat)
  have c: "\<forall>le \<in> set (linesOf s).
        (\<forall>c \<in> set (fst le). \<not> isLineTerminator c)
        \<and> (snd le = [] \<or> (\<exists>c. snd le = [c] \<and> isLineTerminator c))
        \<and> indentLine n le =
            (if \<exists>c \<in> set (fst le). \<not> isSpace c then replicate n (CHR '' '') @ fst le else fst le)
              @ snd le"
  proof
    fix le
    assume "le \<in> set (linesOf s)"
    then have "(\<forall>c \<in> set (fst le). \<not> isLineTerminator c)
       \<and> (snd le = [] \<or> (\<exists>c. snd le = [c] \<and> isLineTerminator c))"
      by (rule linesOf_shape)
    moreover have "indentLine n le =
        (if \<exists>c \<in> set (fst le). \<not> isSpace c then replicate n (CHR '' '') @ fst le else fst le)
          @ snd le"
      by (simp add: indentLine_def nonBlank_def)
    ultimately show "(\<forall>c \<in> set (fst le). \<not> isLineTerminator c)
        \<and> (snd le = [] \<or> (\<exists>c. snd le = [c] \<and> isLineTerminator c))
        \<and> indentLine n le =
            (if \<exists>c \<in> set (fst le). \<not> isSpace c then replicate n (CHR '' '') @ fst le else fst le)
              @ snd le"
      by simp
  qed
  have d: "indentString (''first'' @ nl @ '' '' @ nl @ ''last'') 2
       = ''  first'' @ nl @ '' '' @ nl @ ''  last''"
    by code_simp
  show ?thesis by (intro conjI) (fact a, fact b, fact c, fact d)
qed

theorem indentString_prefixes_nonblank_lines_witness:
  "(''x'', nl) \<in> set (linesOf (''x'' @ nl @ nl @ '' y''))
   \<and> indentLine 3 (''x'', nl) = ''   x'' @ nl
   \<and> indentString (''x'' @ nl @ nl @ '' y'') 3 = ''   x'' @ nl @ nl @ ''    y''"
proof -
  have m: "(''x'', nl) \<in> set (linesOf (''x'' @ nl @ nl @ '' y''))"
    by code_simp
  have e: "concat (map (indentLine 3) (linesOf (''x'' @ nl @ nl @ '' y'')))
      = ''   x'' @ nl @ nl @ ''    y''"
    by code_simp
  have l: "(if \<exists>c \<in> set (fst (''x'', nl)). \<not> isSpace c
            then replicate 3 (CHR '' '') @ fst (''x'', nl) else fst (''x'', nl)) @ snd (''x'', nl)
      = ''   x'' @ nl"
    by code_simp
  note t = indentString_prefixes_nonblank_lines [of "''x'' @ nl @ nl @ '' y''" 3]
  from t have "indentString (''x'' @ nl @ nl @ '' y'') 3
      = concat (map (indentLine 3) (linesOf (''x'' @ nl @ nl @ '' y'')))"
    by (rule conjunct1)
  moreover from t m have "indentLine 3 (''x'', nl) =
      (if \<exists>c \<in> set (fst (''x'', nl)). \<not> isSpace c
       then replicate 3 (CHR '' '') @ fst (''x'', nl) else fst (''x'', nl)) @ snd (''x'', nl)"
    by blast
  ultimately show ?thesis using m e l by (simp only: simp_thms)
qed

section \<open>The renderer\<close>

lemma WidgetGenerator_invisible:
  "\<not> isVisible node \<Longrightarrow> WidgetGenerator js [node] = []"
  by (simp add: WidgetGenerator.simps isVisible_def)

lemma WidgetGenerator_filter:
  "WidgetGenerator js sceneNode = WidgetGenerator js (filter isVisible sceneNode)"
  by (simp add: WidgetGenerator.simps isVisible_def)

lemma WidgetGenerator_group:
  "isVisible node \<Longrightarrow> node_type (props node) = ''GROUP'' \<Longrightarrow>
     WidgetGenerator js [node] = generateGroupPrompt js node"
  by (simp add: WidgetGenerator.simps isVisible_def)

lemma WidgetGenerator_frame:
  "isVisible node \<Longrightarrow>
   node_type (props node) \<in> {''FRAME'', ''COMPONENT'', ''INSTANCE'', ''COMPONENT_SET''} \<Longrightarrow>
     WidgetGenerator js [node] = generateFramePrompt js node"
  by (auto simp add: WidgetGenerator.simps isVisible_def)

lemma WidgetGenerator_section:
  "isVisible node \<Longrightarrow> node_type (props node) = ''SECTION'' \<Longrightarrow>
     WidgetGenerator js [node] = generateSectionPrompt js node"
  by (simp add: WidgetGenerator.simps isVisible_def)

lemma WidgetGenerator_container:
  "isVisible node \<Longrightarrow>
   node_type (props node) = ''RECTANGLE'' \<or> node_type (props node) = ''ELLIPSE'' \<Longrightarrow>
     WidgetGenerator js [node] = generateContainerPrompt js node"
  by (auto simp add: WidgetGenerator.simps isVisible_def)

lemma WidgetGenerator_text:
  "isVisible node \<Longrightarrow> node_type (props node) = ''TEXT'' \<Longrightarrow>
     WidgetGenerator js [node] = generateTextPrompt js node"
  by (simp add: WidgetGenerator.simps isVisible_def)

lemma WidgetGenerator_unknown:
  "isVisible node \<Longrightarrow> \<not> supported (node_type (props node)) \<Longrightarrow>
     WidgetGenerator js [node] = ''Unknown node type: '' @ node_type (props node)"
  by (simp add: WidgetGenerator.simps isVisible_def supported_def)

text \<open>The renderer joins the renderings of the visible nodes, each rendered alone.\<close>

lemma WidgetGenerator_join:
  "WidgetGenerator js sceneNode =
     join nl (map (\<lambda>node. WidgetGenerator js [node]) (filter isVisible sceneNode))"
proof -
  let ?render = "\<lambda>node.
        if node_type (props node) = ''RECTANGLE'' \<or> node_type (props node) = ''ELLIPSE''
          then generateContainerPrompt js node
        else if node_type (props node) = ''GROUP'' then generateGroupPrompt js node
        else if node_type (props node) = ''FRAME'' \<or> node_type (props node) = ''COMPONENT''
             \<or> node_type (props node) = ''INSTANCE'' \<or> node_type (props node) = ''COMPONENT_SET''
          then generateFramePrompt js node
        else if node_type (props node) = ''TEXT'' then generateTextPrompt js node
        else if node_type (props node) = ''LINE'' then generateLinePrompt js node
        else if node_type (props node) = ''VECTOR'' then generateVectorPrompt js node
        else if node_type (props node) = ''SECTION'' then generateSectionPrompt js node
        else ''Unknown node type: '' @ node_type (props node)"
  have a: "WidgetGenerator js sceneNode = join nl (map ?render (filter isVisible sceneNode))"
    by (subst WidgetGenerator.simps) (simp only: isVisible_def [abs_def])
  have b: "map ?render (filter isVisible sceneNode) =
      map (\<lambda>node. WidgetGenerator js [node]) (filter isVisible sceneNode)"
    by (rule map_cong) (simp_all add: WidgetGenerator.simps isVisible_def)
  show ?thesis unfolding a b ..
qed

lemma generateGroupPrompt_block:
  "generateGroupPrompt js node =
     ''- A group'' @ componentName node
     @ '' with '' @ numberToString js (of_nat (length (children node)))
     @ '' children, dimensions '' @ sliceNum js (node_width (props node))
     @ ''x'' @ sliceNum js (node_height (props node))
     @ ''px, positioned at ('' @ sliceNum js (node_x (props node))
     @ '','' @ sliceNum js (node_y (props node))
     @ '')px, with properties:'' @ nl @ childBlock js node"
  by (simp add: generateGroupPrompt.simps childBlock_def)

lemma generateFramePrompt_block:
  "generateFramePrompt js node =
     ''- A '' @ toLowerCase (node_type (props node)) @ '' frame'' @ componentName node
     @ '' with '' @ numberToString js (of_nat (length (children node)))
     @ '' children, dimensions '' @ sliceNum js (node_width (props node))
     @ ''x'' @ sliceNum js (node_height (props node))
     @ ''px, positioned at ('' @ sliceNum js (node_x (props node))
     @ '','' @ sliceNum js (node_y (props node))
     @ '')px, '' @ layoutInfo js node @ '':'' @ nl @ childBlock js node"
  by (simp add: generateFramePrompt.simps childBlock_def)

lemma generateSectionPrompt_block:
  "generateSectionPrompt js node =
     ''- A section node'' @ componentName node
     @ '' with '' @ numberToString js (of_nat (length (children node)))
     @ '' children, dimensions '' @ sliceNum js (node_width (props node))
     @ ''x'' @ sliceNum js (node_height (props node))
     @ ''px, positioned at ('' @ sliceNum js (node_x (props node))
     @ '','' @ sliceNum js (node_y (props node))
     @ '')px:'' @ nl @ childBlock js node"
  by (simp add: generateSectionPrompt.simps childBlock_def)

lemma join_empties: "join sep (replicate n []) = concat (replicate (n - 1) sep)"
proof (induction n)
  case 0
  show ?case by simp
next
  case (Suc n)
  show ?case
  proof (cases n)
    case 0
    then show ?thesis by simp
  next
    case (Suc m)
    with Suc.IH show ?thesis by simp
  qed
qed

lemma indentString_newlines:
  "indentString (replicate k (CHR 0x0A)) n = replicate k (CHR 0x0A)"
proof -
  have "replaceLineStarts pad atStart (replicate k (CHR 0x0A)) = replicate k (CHR 0x0A)"
    for pad atStart
    by (induction k arbitrary: atStart) (simp_all add: isLineTerminator_def)
  then show ?thesis by (simp add: indentString_def)
qed

lemma childBlock_all_invisible:
  assumes "\<forall>child \<in> set (children node). \<not> isVisible child"
  shows "childBlock js node = replicate (length (children node) - 1) (CHR 0x0A)"
proof -
  have "map (\<lambda>child. WidgetGenerator js [child]) (children node)
      = replicate (length (children node)) []"
    using assms by (simp add: map_replicate_const [symmetric] WidgetGenerator_invisible cong: map_cong)
  then have "join nl (map (\<lambda>child. WidgetGenerator js [child]) (children node))
      = replicate (length (children node) - 1) (CHR 0x0A)"
    by (simp add: join_empties nl_def)
  then show ?thesis by (simp add: childBlock_def indentString_newlines)
qed

section \<open>Invisible nodes\<close>

lemma isVisible_hollow: "isVisible (hollow node) = isVisible node"
  by (cases node) (simp add: isVisible_def hidden_def)

text \<open>The prompts of the kinds without children read the properties of the node only.\<close>

lemma leaf_prompts_props:
  assumes "props a = props b"
  shows "generateContainerPrompt js a = generateContainerPrompt js b"
    and "generateTextPrompt js a = generateTextPrompt js b"
    and "generateLinePrompt js a = generateLinePrompt js b"
    and "generateVectorPrompt js a = generateVectorPrompt js b"
    and "componentName a = componentName b"
    and "layoutInfo js a = layoutInfo js b"
  using assms
  by (simp_all add: generateContainerPrompt_def generateTextPrompt_def generateLinePrompt_def
      generateVectorPrompt_def componentName_def layoutInfo_def getBackgroundColor_def
      getBorderWidth_def getBorderColor_def getBorderRadius_def getShadow_def getPadding_def)

lemma childBlock_cong:
  assumes "map (\<lambda>child. WidgetGenerator js [child]) (children a)
         = map (\<lambda>child. WidgetGenerator js [child]) (children b)"
  shows "childBlock js a = childBlock js b"
  using assms by (simp add: childBlock_def)

lemma container_prompts_cong:
  assumes "props a = props b"
    and "length (children a) = length (children b)"
    and "childBlock js a = childBlock js b"
  shows "generateGroupPrompt js a = generateGroupPrompt js b"
    and "generateFramePrompt js a = generateFramePrompt js b"
    and "generateSectionPrompt js a = generateSectionPrompt js b"
  using assms
  by (simp_all only: generateGroupPrompt_block generateFramePrompt_block
      generateSectionPrompt_block leaf_prompts_props(5,6) [OF assms(1)])

lemma render_cong:
  assumes "props a = props b"
    and "length (children a) = length (children b)"
    and "childBlock js a = childBlock js b"
  shows "WidgetGenerator js [a] = WidgetGenerator js [b]"
  by (simp add: WidgetGenerator.simps [of js "[a]"] WidgetGenerator.simps [of js "[b]"]
      assms(1) leaf_prompts_props(1-4) [OF assms(1)] container_prompts_cong [OF assms])

lemma WidgetGenerator_hollow_single: "WidgetGenerator js [hollow node] = WidgetGenerator js [node]"
proof (induction node)
  case (SceneNode p cs)
  show ?case
  proof (cases "node_visible p")
    case False
    then show ?thesis
      by (simp add: WidgetGenerator_invisible isVisible_def hidden_def)
  next
    case True
    have "map (\<lambda>child. WidgetGenerator js [child]) (map hollow cs)
        = map (\<lambda>child. WidgetGenerator js [child]) cs"
      by (simp add: SceneNode.IH cong: map_cong)
    then have "childBlock js (SceneNode p (map hollow cs)) = childBlock js (SceneNode p cs)"
      by (intro childBlock_cong) simp
    then have "WidgetGenerator js [SceneNode p (map hollow cs)] = WidgetGenerator js [SceneNode p cs]"
      by (intro render_cong) simp_all
    with True show ?thesis by simp
  qed
qed

lemma WidgetGenerator_hollow:
  "WidgetGenerator js (map hollow sceneNode) = WidgetGenerator js sceneNode"
proof -
  have "filter isVisible (map hollow sceneNode) = map hollow (filter isVisible sceneNode)"
    by (simp add: filter_map comp_def isVisible_hollow)
  then show ?thesis
    by (simp add: WidgetGenerator_join [of js "map hollow sceneNode"]
        WidgetGenerator_join [of js sceneNode] comp_def WidgetGenerator_hollow_single)
qed

text \<open>
  C3 (as amended). A node whose visibility flag is false is never rendered, and nothing
  below it is. \<open>WidgetGenerator\<close> renders the visible nodes of its list only, so at the
  top level an invisible node is dropped from the output. A container renders each child
  through \<open>WidgetGenerator\<close>, so an invisible child is rendered as the empty string; it
  keeps its place among the children joined by newlines (and its place in the child
  count). Apart from that place nothing of an invisible node reaches the output, at any
  depth: replacing every invisible node by a bare invisible node leaves the output as
  it is.
\<close>

theorem invisible_nodes_not_rendered:
  "WidgetGenerator js sceneNode = WidgetGenerator js (filter isVisible sceneNode)
   \<and> (\<not> isVisible node \<longrightarrow> WidgetGenerator js [node] = [])
   \<and> WidgetGenerator js sceneNode =
       join nl (map (\<lambda>node. WidgetGenerator js [node]) (filter isVisible sceneNode))
   \<and> childBlock js node =
       indentString (join nl (map (\<lambda>child. if isVisible child then WidgetGenerator js [child] else [])
         (children node))) 2
   \<and> WidgetGenerator js (map hollow sceneNode) = WidgetGenerator js sceneNode"
proof (intro conjI impI)
  show "WidgetGenerator js sceneNode = WidgetGenerator js (filter isVisible sceneNode)"
    by (rule WidgetGenerator_filter)
  show "WidgetGenerator js [node] = []" if "\<not> isVisible node"
    using that by (rule WidgetGenerator_invisible)
  show "WidgetGenerator js sceneNode =
       join nl (map (\<lambda>node. WidgetGenerator js [node]) (filter isVisible sceneNode))"
    by (rule WidgetGenerator_join)
  have m: "map (\<lambda>child. WidgetGenerator js [child]) (children node) =
      map (\<lambda>child. if isVisible child then WidgetGenerator js [child] else []) (children node)"
    by (rule map_cong) (simp_all add: WidgetGenerator_invisible)
  show "childBlock js node =
       indentString (join nl (map (\<lambda>child. if isVisible child then WidgetGenerator js [child] else [])
         (children node))) 2"
    by (simp only: childBlock_def m)
  show "WidgetGenerator js (map hollow sceneNode) = WidgetGenerator js sceneNode"
    by (rule WidgetGenerator_hollow)
qed

theorem invisible_nodes_not_rendered_witness:
  "\<not> isVisible (hidden [ofKind ''VECTOR'' []])
   \<and> WidgetGenerator exact [hidden [ofKind ''VECTOR'' []]] = []
   \<and> WidgetGenerator exact [ofKind ''VECTOR'' [], hidden [ofKind ''VECTOR'' []]]
       = ''- A vector node with dimensions 10x20px, positioned at (0,0)px.''"
proof -
  let ?h = "hidden [ofKind ''VECTOR'' []]"
  have v: "\<not> isVisible ?h" by code_simp
  have f: "WidgetGenerator exact (filter isVisible [ofKind ''VECTOR'' [], ?h])
       = ''- A vector node with dimensions 10x20px, positioned at (0,0)px.''"
    by code_simp
  note t = invisible_nodes_not_rendered [of exact "[ofKind ''VECTOR'' [], ?h]" ?h]
  from t v have "WidgetGenerator exact [?h] = []" by blast
  moreover from t have "WidgetGenerator exact [ofKind ''VECTOR'' [], ?h]
      = WidgetGenerator exact (filter isVisible [ofKind ''VECTOR'' [], ?h])"
    by (rule conjunct1)
  ultimately show ?thesis using v f by (simp only: simp_thms)
qed

text \<open>
  The claim as stated fails: removing the invisible child of a group changes the output,
  in the child count and in the child block.
\<close>

theorem invisible_child_counterexample:
  "WidgetGenerator exact (pruneAll [ofKind ''GROUP'' [ofKind ''VECTOR'' [], hidden []]])
     \<noteq> WidgetGenerator exact [ofKind ''GROUP'' [ofKind ''VECTOR'' [], hidden []]]
   \<and> childBlock exact (prune (ofKind ''GROUP'' [ofKind ''VECTOR'' [], hidden []]))
     \<noteq> childBlock exact (ofKind ''GROUP'' [ofKind ''VECTOR'' [], hidden []])"
  by code_simp

section \<open>Child count and child block\<close>

text \<open>
  C4 (as amended). The line of a rendered Group, Section, Frame, Component,
  ComponentSet or Instance node reports the number of all its children, the invisible
  ones included (printed in decimal digits below \<open>2^53\<close>). When all its children are
  invisible, the child block after its line holds no text: it consists of the newlines
  that separate the children's empty renderings, one fewer than there are children,
  and so is empty only for a container of at most one child.
\<close>

theorem container_counts_all_children:
  "(isVisible node \<and> node_type (props node) = ''GROUP'' \<longrightarrow>
      WidgetGenerator js [node] =
        ''- A group'' @ componentName node
        @ '' with '' @ numberToString js (of_nat (length (children node)))
        @ '' children, dimensions '' @ sliceNum js (node_width (props node))
        @ ''x'' @ sliceNum js (node_height (props node))
        @ ''px, positioned at ('' @ sliceNum js (node_x (props node))
        @ '','' @ sliceNum js (node_y (props node))
        @ '')px, with properties:'' @ nl @ childBlock js node)
   \<and> (isVisible node \<and> node_type (props node) = ''SECTION'' \<longrightarrow>
      WidgetGenerator js [node] =
        ''- A section node'' @ componentName node
        @ '' with '' @ numberToString js (of_nat (length (children node)))
        @ '' children, dimensions '' @ sliceNum js (node_width (props node))
        @ ''x'' @ sliceNum js (node_height (props node))
        @ ''px, positioned at ('' @ sliceNum js (node_x (props node))
        @ '','' @ sliceNum js (node_y (props node))
        @ '')px:'' @ nl @ childBlock js node)
   \<and> (isVisible node
        \<and> node_type (props node) \<in> {''FRAME'', ''COMPONENT'', ''INSTANCE'', ''COMPONENT_SET''} \<longrightarrow>
      WidgetGenerator js [node] =
        ''- A '' @ toLowerCase (node_type (props node)) @ '' frame'' @ componentName node
        @ '' with '' @ numberToString js (of_nat (length (children node)))
        @ '' children, dimensions '' @ sliceNum js (node_width (props node))
        @ ''x'' @ sliceNum js (node_height (props node))
        @ ''px, positioned at ('' @ sliceNum js (node_x (props node))
        @ '','' @ sliceNum js (node_y (props node))
        @ '')px, '' @ layoutInfo js node @ '':'' @ nl @ childBlock js node)
   \<and> (length (children node) < 2 ^ 53 \<longrightarrow>
        numberToString js (of_nat (length (children node))) = digitsNat (length (children node)))
   \<and> ((\<forall>child \<in> set (children node). \<not> isVisible child) \<longrightarrow>
        childBlock js node = replicate (length (children node) - 1) (CHR 0x0A))"
proof (intro conjI impI)
  assume "isVisible node \<and> node_type (props node) = ''GROUP''"
  then show "WidgetGenerator js [node] =
        ''- A group'' @ componentName node
        @ '' with '' @ numberToString js (of_nat (length (children node)))
        @ '' children, dimensions '' @ sliceNum js (node_width (props node))
        @ ''x'' @ sliceNum js (node_height (props node))
        @ ''px, positioned at ('' @ sliceNum js (node_x (props node))
        @ '','' @ sliceNum js (node_y (props node))
        @ '')px, with properties:'' @ nl @ childBlock js node"
    by (simp only: WidgetGenerator_group generateGroupPrompt_block)
next
  assume "isVisible node \<and> node_type (props node) = ''SECTION''"
  then show "WidgetGenerator js [node] =
        ''- A section node'' @ componentName node
        @ '' with '' @ numberToString js (of_nat (length (children node)))
        @ '' children, dimensions '' @ sliceNum js (node_width (props node))
        @ ''x'' @ sliceNum js (node_height (props node))
        @ ''px, positioned at ('' @ sliceNum js (node_x (props node))
        @ '','' @ sliceNum js (node_y (props node))
        @ '')px:'' @ nl @ childBlock js node"
    by (simp only: WidgetGenerator_section generateSectionPrompt_block)
next
  assume "isVisible node
      \<and> node_type (props node) \<in> {''FRAME'', ''COMPONENT'', ''INSTANCE'', ''COMPONENT_SET''}"
  then show "WidgetGenerator js [node] =
        ''- A '' @ toLowerCase (node_type (props node)) @ '' frame'' @ componentName node
        @ '' with '' @ numberToString js (of_nat (length (children node)))
        @ '' children, dimensions '' @ sliceNum js (node_width (props node))
        @ ''x'' @ sliceNum js (node_height (props node))
        @ ''px, positioned at ('' @ sliceNum js (node_x (props node))
        @ '','' @ sliceNum js (node_y (props node))
        @ '')px, '' @ layoutInfo js node @ '':'' @ nl @ childBlock js node"
    by (simp only: WidgetGenerator_frame generateFramePrompt_block)
next
  assume "length (children node) < 2 ^ 53"
  then have "(of_nat (length (children node)) :: rat) < 2 ^ 53"
    by (metis of_nat_less_iff of_nat_numeral of_nat_power)
  then show "numberToString js (of_nat (length (children node))) = digitsNat (length (children node))"
    by (simp add: numberToString_def)
next
  assume "\<forall>child \<in> set (children node). \<not> isVisible child"
  then show "childBlock js node = replicate (length (children node) - 1) (CHR 0x0A)"
    by (rule childBlock_all_invisible)
qed

theorem container_counts_all_children_witness:
  "isVisible (ofKind ''GROUP'' [hidden [], hidden [], hidden []])
   \<and> node_type (props (ofKind ''GROUP'' [hidden [], hidden [], hidden []])) = ''GROUP''
   \<and> \<not> isVisible (hidden [])
   \<and> WidgetGenerator exact [ofKind ''GROUP'' [hidden [], hidden [], hidden []]] =
       ''- A group with 3 children, dimensions 10x20px, positioned at (0,0)px, with properties:''
         @ nl @ nl @ nl"
proof -
  let ?g = "ofKind ''GROUP'' [hidden [], hidden [], hidden []]"
  have v: "isVisible ?g \<and> node_type (props ?g) = ''GROUP''"
    by code_simp
  have i: "\<forall>child \<in> set (children ?g). \<not> isVisible child"
    by code_simp
  have e: "''- A group'' @ componentName ?g
        @ '' with '' @ numberToString exact (of_nat (length (children ?g)))
        @ '' children, dimensions '' @ sliceNum exact (node_width (props ?g))
        @ ''x'' @ sliceNum exact (node_height (props ?g))
        @ ''px, positioned at ('' @ sliceNum exact (node_x (props ?g))
        @ '','' @ sliceNum exact (node_y (props ?g))
        @ '')px, with properties:'' @ nl @ replicate (length (children ?g) - 1) (CHR 0x0A)
      = ''- A group with 3 children, dimensions 10x20px, positioned at (0,0)px, with properties:''
         @ nl @ nl @ nl"
    by code_simp
  note t = container_counts_all_children [of ?g exact]
  from t v have "WidgetGenerator exact [?g] =
        ''- A group'' @ componentName ?g
        @ '' with '' @ numberToString exact (of_nat (length (children ?g)))
        @ '' children, dimensions '' @ sliceNum exact (node_width (props ?g))
        @ ''x'' @ sliceNum exact (node_height (props ?g))
        @ ''px, positioned at ('' @ sliceNum exact (node_x (props ?g))
        @ '','' @ sliceNum exact (node_y (props ?g))
        @ '')px, with properties:'' @ nl @ childBlock exact ?g"
    by blast
  moreover from t i have "childBlock exact ?g = replicate (length (children ?g) - 1) (CHR 0x0A)"
    by blast
  ultimately have r: "WidgetGenerator exact [?g] =
      ''- A group with 3 children, dimensions 10x20px, positioned at (0,0)px, with properties:''
         @ nl @ nl @ nl"
    using e by (simp only:)
  have h: "\<not> isVisible (hidden [])" by code_simp
  from v h r show ?thesis by (simp only: simp_thms)
qed

text \<open>The block of a group of two invisible children is a newline, not the empty string.\<close>

theorem invisible_children_block_counterexample:
  "\<not> isVisible (hidden [])
   \<and> childBlock exact (ofKind ''GROUP'' [hidden [], hidden []]) \<noteq> []"
  by code_simp

section \<open>Unsupported kinds\<close>

lemma convertIntoNodes_filter:
  "convertIntoNodes sceneNode = filter (\<lambda>node. supported (node_type (props node))) sceneNode"
  by (induction sceneNode) (simp_all add: convertIntoNodes_def)

text \<open>The child block of a container that has a visible child of an unsupported kind.\<close>

lemma childBlock_unknown:
  assumes "\<not> supported (node_type (props u))"
    and "isVisible u"
    and "children container = before @ u # after"
  shows "childBlock js container =
      indentString (join nl (map (\<lambda>node. WidgetGenerator js [node]) before
        @ [''Unknown node type: '' @ node_type (props u)]
        @ map (\<lambda>node. WidgetGenerator js [node]) after)) 2"
  using assms by (simp add: childBlock_def WidgetGenerator_unknown)

text \<open>
  C5. A node of a kind outside Rectangle, Ellipse, Line, Text, Vector, Group, Frame,
  Component, ComponentSet, Instance and Section, when visible, is rendered as the single
  line \<open>Unknown node type: <kind>\<close>. As a child of a rendered Group, Section, Frame,
  Component, ComponentSet or Instance node, the container's rendering holds that line
  in the child's place, between the renderings of its siblings, which are what they are
  without it; the same holds in a list of nodes. In the selection it is removed by
  \<open>convertIntoNodes\<close>, which keeps the nodes of the supported kinds.
\<close>

theorem unknown_kind_line:
  assumes "\<not> supported (node_type (props u))"
  shows "(isVisible u \<longrightarrow>
        WidgetGenerator js [u] = ''Unknown node type: '' @ node_type (props u)
        \<and> WidgetGenerator js (before @ u # after) =
            join nl (map (\<lambda>node. WidgetGenerator js [node]) (filter isVisible before)
              @ [''Unknown node type: '' @ node_type (props u)]
              @ map (\<lambda>node. WidgetGenerator js [node]) (filter isVisible after))
        \<and> (isVisible container \<and> children container = before @ u # after \<longrightarrow>
            (node_type (props container) = ''GROUP'' \<longrightarrow>
               WidgetGenerator js [container] =
                 ''- A group'' @ componentName container
                 @ '' with '' @ numberToString js (of_nat (length (children container)))
                 @ '' children, dimensions '' @ sliceNum js (node_width (props container))
                 @ ''x'' @ sliceNum js (node_height (props container))
                 @ ''px, positioned at ('' @ sliceNum js (node_x (props container))
                 @ '','' @ sliceNum js (node_y (props container))
                 @ '')px, with properties:'' @ nl
                 @ indentString (join nl (map (\<lambda>node. WidgetGenerator js [node]) before
                     @ [''Unknown node type: '' @ node_type (props u)]
                     @ map (\<lambda>node. WidgetGenerator js [node]) after)) 2)
            \<and> (node_type (props container) = ''SECTION'' \<longrightarrow>
               WidgetGenerator js [container] =
                 ''- A section node'' @ componentName container
                 @ '' with '' @ numberToString js (of_nat (length (children container)))
                 @ '' children, dimensions '' @ sliceNum js (node_width (props container))
                 @ ''x'' @ sliceNum js (node_height (props container))
                 @ ''px, positioned at ('' @ sliceNum js (node_x (props container))
                 @ '','' @ sliceNum js (node_y (props container))
                 @ '')px:'' @ nl
                 @ indentString (join nl (map (\<lambda>node. WidgetGenerator js [node]) before
                     @ [''Unknown node type: '' @ node_type (props u)]
                     @ map (\<lambda>node. WidgetGenerator js [node]) after)) 2)
            \<and> (node_type (props container)
                  \<in> {''FRAME'', ''COMPONENT'', ''INSTANCE'', ''COMPONENT_SET''} \<longrightarrow>
               WidgetGenerator js [container] =
                 ''- A '' @ toLowerCase (node_type (props container)) @ '' frame''
                 @ componentName container
                 @ '' with '' @ numberToString js (of_nat (length (children container)))
                 @ '' children, dimensions '' @ sliceNum js (node_width (props container))
                 @ ''x'' @ sliceNum js (node_height (props container))
                 @ ''px, positioned at ('' @ sliceNum js (node_x (props container))
                 @ '','' @ sliceNum js (node_y (props container))
                 @ '')px, '' @ layoutInfo js container @ '':'' @ nl
                 @ indentString (join nl (map (\<lambda>node. WidgetGenerator js [node]) before
                     @ [''Unknown node type: '' @ node_type (props u)]
                     @ map (\<lambda>node. WidgetGenerator js [node]) after)) 2)))
     \<and> convertIntoNodes selection
          = filter (\<lambda>node. supported (node_type (props node))) selection
     \<and> u \<notin> set (convertIntoNodes selection)
     \<and> (supported t) =
          (t \<in> {''RECTANGLE'', ''ELLIPSE'', ''LINE'', ''TEXT'', ''VECTOR'', ''GROUP'', ''FRAME'',
                 ''COMPONENT'', ''COMPONENT_SET'', ''INSTANCE'', ''SECTION''})"
proof (intro conjI impI)
  assume v: "isVisible u"
  from v assms show line: "WidgetGenerator js [u] = ''Unknown node type: '' @ node_type (props u)"
    by (rule WidgetGenerator_unknown)
  from v show "WidgetGenerator js (before @ u # after) =
      join nl (map (\<lambda>node. WidgetGenerator js [node]) (filter isVisible before)
        @ [''Unknown node type: '' @ node_type (props u)]
        @ map (\<lambda>node. WidgetGenerator js [node]) (filter isVisible after))"
    by (simp add: WidgetGenerator_join [of js "before @ u # after"] line)
  assume c: "isVisible container \<and> children container = before @ u # after"
  then have vc: "isVisible container" and ch: "children container = before @ u # after"
    by simp_all
  note block = childBlock_unknown [OF assms v ch, of js, symmetric]
  show "WidgetGenerator js [container] =
        ''- A group'' @ componentName container
        @ '' with '' @ numberToString js (of_nat (length (children container)))
        @ '' children, dimensions '' @ sliceNum js (node_width (props container))
        @ ''x'' @ sliceNum js (node_height (props container))
        @ ''px, positioned at ('' @ sliceNum js (node_x (props container))
        @ '','' @ sliceNum js (node_y (props container))
        @ '')px, with properties:'' @ nl
        @ indentString (join nl (map (\<lambda>node. WidgetGenerator js [node]) before
            @ [''Unknown node type: '' @ node_type (props u)]
            @ map (\<lambda>node. WidgetGenerator js [node]) after)) 2"
    if "node_type (props container) = ''GROUP''"
    by (simp only: block WidgetGenerator_group [OF vc that] generateGroupPrompt_block)
  show "WidgetGenerator js [container] =
        ''- A section node'' @ componentName container
        @ '' with '' @ numberToString js (of_nat (length (children container)))
        @ '' children, dimensions '' @ sliceNum js (node_width (props container))
        @ ''x'' @ sliceNum js (node_height (props container))
        @ ''px, positioned at ('' @ sliceNum js (node_x (props container))
        @ '','' @ sliceNum js (node_y (props container))
        @ '')px:'' @ nl
        @ indentString (join nl (map (\<lambda>node. WidgetGenerator js [node]) before
            @ [''Unknown node type: '' @ node_type (props u)]
            @ map (\<lambda>node. WidgetGenerator js [node]) after)) 2"
    if "node_type (props container) = ''SECTION''"
    by (simp only: block WidgetGenerator_section [OF vc that] generateSectionPrompt_block)
  show "WidgetGenerator js [container] =
        ''- A '' @ toLowerCase (node_type (props container)) @ '' frame''
        @ componentName container
        @ '' with '' @ numberToString js (of_nat (length (children container)))
        @ '' children, dimensions '' @ sliceNum js (node_width (props container))
        @ ''x'' @ sliceNum js (node_height (props container))
        @ ''px, positioned at ('' @ sliceNum js (node_x (props container))
        @ '','' @ sliceNum js (node_y (props container))
        @ '')px, '' @ layoutInfo js container @ '':'' @ nl
        @ indentString (join nl (map (\<lambda>node. WidgetGenerator js [node]) before
            @ [''Unknown node type: '' @ node_type (props u)]
            @ map (\<lambda>node. WidgetGenerator js [node]) after)) 2"
    if "node_type (props container) \<in> {''FRAME'', ''COMPONENT'', ''INSTANCE'', ''COMPONENT_SET''}"
    by (simp only: block WidgetGenerator_frame [OF vc that] generateFramePrompt_block)
next
  show "convertIntoNodes selection
      = filter (\<lambda>node. supported (node_type (props node))) selection"
    by (rule convertIntoNodes_filter)
  show "u \<notin> set (convertIntoNodes selection)"
    using assms by (simp add: convertIntoNodes_filter)
  show "(supported t) =
      (t \<in> {''RECTANGLE'', ''ELLIPSE'', ''LINE'', ''TEXT'', ''VECTOR'', ''GROUP'', ''FRAME'',
             ''COMPONENT'', ''COMPONENT_SET'', ''INSTANCE'', ''SECTION''})"
    by (auto simp add: supported_def)
qed

theorem unknown_kind_line_witness:
  "\<not> supported (node_type (props (ofKind ''STAR'' [])))
   \<and> isVisible (ofKind ''STAR'' [])
   \<and> WidgetGenerator exact [ofKind ''STAR'' []] = ''Unknown node type: STAR''
   \<and> isVisible (ofKind ''SECTION'' [ofKind ''VECTOR'' [], ofKind ''STAR'' []])
   \<and> children (ofKind ''SECTION'' [ofKind ''VECTOR'' [], ofKind ''STAR'' []])
       = [ofKind ''VECTOR'' []] @ ofKind ''STAR'' [] # []
   \<and> node_type (props (ofKind ''SECTION'' [ofKind ''VECTOR'' [], ofKind ''STAR'' []])) = ''SECTION''
   \<and> WidgetGenerator exact [ofKind ''SECTION'' [ofKind ''VECTOR'' [], ofKind ''STAR'' []]] =
       ''- A section node with 2 children, dimensions 10x20px, positioned at (0,0)px:''
       @ nl @ ''  - A vector node with dimensions 10x20px, positioned at (0,0)px.''
       @ nl @ ''  Unknown node type: STAR''
   \<and> WidgetGenerator exact [ofKind ''GROUP'' [ofKind ''VECTOR'' [], ofKind ''STAR'' []]] =
       ''- A group with 2 children, dimensions 10x20px, positioned at (0,0)px, with properties:''
       @ nl @ ''  - A vector node with dimensions 10x20px, positioned at (0,0)px.''
       @ nl @ ''  Unknown node type: STAR''
   \<and> convertIntoNodes [ofKind ''VECTOR'' [], ofKind ''STAR'' []] = [ofKind ''VECTOR'' []]"
proof -
  let ?u = "ofKind ''STAR'' []"
  let ?c = "ofKind ''SECTION'' [ofKind ''VECTOR'' [], ofKind ''STAR'' []]"
  have s: "\<not> supported (node_type (props ?u))" by code_simp
  have v: "isVisible ?u" by code_simp
  have e: "''Unknown node type: '' @ node_type (props ?u) = ''Unknown node type: STAR''"
    by code_simp
  have vc: "isVisible ?c" by code_simp
  have ch: "children ?c = [ofKind ''VECTOR'' []] @ ?u # []" by (simp add: ofKind_def)
  have ty: "node_type (props ?c) = ''SECTION''" by (simp add: ofKind_def)
  have es: "''- A section node'' @ componentName ?c
        @ '' with '' @ numberToString exact (of_nat (length (children ?c)))
        @ '' children, dimensions '' @ sliceNum exact (node_width (props ?c))
        @ ''x'' @ sliceNum exact (node_height (props ?c))
        @ ''px, positioned at ('' @ sliceNum exact (node_x (props ?c))
        @ '','' @ sliceNum exact (node_y (props ?c))
        @ '')px:'' @ nl
        @ indentString (join nl (map (\<lambda>node. WidgetGenerator exact [node]) [ofKind ''VECTOR'' []]
            @ [''Unknown node type: '' @ node_type (props ?u)]
            @ map (\<lambda>node. WidgetGenerator exact [node]) [])) 2
      = ''- A section node with 2 children, dimensions 10x20px, positioned at (0,0)px:''
       @ nl @ ''  - A vector node with dimensions 10x20px, positioned at (0,0)px.''
       @ nl @ ''  Unknown node type: STAR''"
    by code_simp
  have g: "WidgetGenerator exact [ofKind ''GROUP'' [ofKind ''VECTOR'' [], ofKind ''STAR'' []]] =
       ''- A group with 2 children, dimensions 10x20px, positioned at (0,0)px, with properties:''
       @ nl @ ''  - A vector node with dimensions 10x20px, positioned at (0,0)px.''
       @ nl @ ''  Unknown node type: STAR''"
    by code_simp
  have c: "convertIntoNodes [ofKind ''VECTOR'' [], ofKind ''STAR'' []] = [ofKind ''VECTOR'' []]"
    by code_simp
  note t = unknown_kind_line [OF s, of exact "[ofKind ''VECTOR'' []]" "[]" ?c]
  from t v have "WidgetGenerator exact [?u] = ''Unknown node type: '' @ node_type (props ?u)"
    by blast
  with e have a: "WidgetGenerator exact [?u] = ''Unknown node type: STAR''"
    by (simp only:)
  from t v vc ch ty have "WidgetGenerator exact [?c] =
        ''- A section node'' @ componentName ?c
        @ '' with '' @ numberToString exact (of_nat (length (children ?c)))
        @ '' children, dimensions '' @ sliceNum exact (node_width (props ?c))
        @ ''x'' @ sliceNum exact (node_height (props ?c))
        @ ''px, positioned at ('' @ sliceNum exact (node_x (props ?c))
        @ '','' @ sliceNum exact (node_y (props ?c))
        @ '')px:'' @ nl
        @ indentString (join nl (map (\<lambda>node. WidgetGenerator exact [node]) [ofKind ''VECTOR'' []]
            @ [''Unknown node type: '' @ node_type (props ?u)]
            @ map (\<lambda>node. WidgetGenerator exact [node]) [])) 2"
    by blast
  with es have b: "WidgetGenerator exact [?c] =
       ''- A section node with 2 children, dimensions 10x20px, positioned at (0,0)px:''
       @ nl @ ''  - A vector node with dimensions 10x20px, positioned at (0,0)px.''
       @ nl @ ''  Unknown node type: STAR''"
    by (simp only:)
  from s v a vc ch ty b g c show ?thesis by (simp only: simp_thms)
qed

section \<open>Frames\<close>

text \<open>
  C7. The line of a rendered Frame, Component, ComponentSet or Instance node has, as
  its layout information, exactly \<open>Layout mode: NONE\<close> when the layout mode is
  \<open>NONE\<close>, and otherwise the layout mode, the primary and counter axis alignments and
  the string of \<open>getPadding\<close>.
\<close>

theorem frame_layout_info:
  assumes "isVisible node"
    and "node_type (props node) \<in> {''FRAME'', ''COMPONENT'', ''COMPONENT_SET'', ''INSTANCE''}"
  shows "(node_layoutMode (props node) = ''NONE'' \<longrightarrow>
        WidgetGenerator js [node] =
          ''- A '' @ toLowerCase (node_type (props node)) @ '' frame'' @ componentName node
          @ '' with '' @ numberToString js (of_nat (length (children node)))
          @ '' children, dimensions '' @ sliceNum js (node_width (props node))
          @ ''x'' @ sliceNum js (node_height (props node))
          @ ''px, positioned at ('' @ sliceNum js (node_x (props node))
          @ '','' @ sliceNum js (node_y (props node))
          @ '')px, '' @ ''Layout mode: NONE'' @ '':'' @ nl @ childBlock js node)
     \<and> (node_layoutMode (props node) \<noteq> ''NONE'' \<longrightarrow>
        WidgetGenerator js [node] =
          ''- A '' @ toLowerCase (node_type (props node)) @ '' frame'' @ componentName node
          @ '' with '' @ numberToString js (of_nat (length (children node)))
          @ '' children, dimensions '' @ sliceNum js (node_width (props node))
          @ ''x'' @ sliceNum js (node_height (props node))
          @ ''px, positioned at ('' @ sliceNum js (node_x (props node))
          @ '','' @ sliceNum js (node_y (props node))
          @ '')px, ''
          @ (''Layout mode: '' @ node_layoutMode (props node)
             @ '', Alignment: '' @ node_primaryAxisAlignItems (props node)
             @ ''/'' @ node_counterAxisAlignItems (props node)
             @ '', Padding: '' @ getPadding js node)
          @ '':'' @ nl @ childBlock js node)"
proof -
  have "WidgetGenerator js [node] = generateFramePrompt js node"
    using assms by (intro WidgetGenerator_frame) auto
  then show ?thesis
    by (simp add: generateFramePrompt_block layoutInfo_def)
qed

theorem frame_layout_info_witness:
  "isVisible (SceneNode (sample\<lparr>node_type := ''FRAME'', node_layoutMode := ''HORIZONTAL'',
       node_primaryAxisAlignItems := ''CENTER'', node_paddingLeft := Some 4,
       node_paddingTop := Some (3 / 2)\<rparr>) [])
   \<and> WidgetGenerator exact [SceneNode (sample\<lparr>node_type := ''FRAME'',
       node_layoutMode := ''HORIZONTAL'', node_primaryAxisAlignItems := ''CENTER'',
       node_paddingLeft := Some 4, node_paddingTop := Some (3 / 2)\<rparr>) []] =
     ''- A frame frame with 0 children, dimensions 10x20px, positioned at (0,0)px, Layout mode: HORIZONTAL, Alignment: CENTER/MIN, Padding: 1.50px 0px 0px 4px:''
       @ nl
   \<and> WidgetGenerator exact [ofKind ''INSTANCE'' []] =
     ''- A instance frame with 0 children, dimensions 10x20px, positioned at (0,0)px, Layout mode: NONE:''
       @ nl"
proof -
  let ?f = "SceneNode (sample\<lparr>node_type := ''FRAME'', node_layoutMode := ''HORIZONTAL'',
       node_primaryAxisAlignItems := ''CENTER'', node_paddingLeft := Some 4,
       node_paddingTop := Some (3 / 2)\<rparr>) []"
  let ?i = "ofKind ''INSTANCE'' []"
  have vf: "isVisible ?f" by code_simp
  have tf: "node_type (props ?f) \<in> {''FRAME'', ''COMPONENT'', ''COMPONENT_SET'', ''INSTANCE''}"
    by (simp add: sample_def)
  have mf: "node_layoutMode (props ?f) \<noteq> ''NONE''" by (simp add: sample_def)
  have vi: "isVisible ?i" by code_simp
  have ti: "node_type (props ?i) \<in> {''FRAME'', ''COMPONENT'', ''COMPONENT_SET'', ''INSTANCE''}"
    by (simp add: sample_def ofKind_def)
  have mi: "node_layoutMode (props ?i) = ''NONE''" by (simp add: sample_def ofKind_def)
  have ef: "''- A '' @ toLowerCase (node_type (props ?f)) @ '' frame'' @ componentName ?f
          @ '' with '' @ numberToString exact (of_nat (length (children ?f)))
          @ '' children, dimensions '' @ sliceNum exact (node_width (props ?f))
          @ ''x'' @ sliceNum exact (node_height (props ?f))
          @ ''px, positioned at ('' @ sliceNum exact (node_x (props ?f))
          @ '','' @ sliceNum exact (node_y (props ?f))
          @ '')px, ''
          @ (''Layout mode: '' @ node_layoutMode (props ?f)
             @ '', Alignment: '' @ node_primaryAxisAlignItems (props ?f)
             @ ''/'' @ node_counterAxisAlignItems (props ?f)
             @ '', Padding: '' @ getPadding exact ?f)
          @ '':'' @ nl @ childBlock exact ?f =
     ''- A frame frame with 0 children, dimensions 10x20px, positioned at (0,0)px, Layout mode: HORIZONTAL, Alignment: CENTER/MIN, Padding: 1.50px 0px 0px 4px:''
       @ nl"
    by code_simp
  have ei: "''- A '' @ toLowerCase (node_type (props ?i)) @ '' frame'' @ componentName ?i
          @ '' with '' @ numberToString exact (of_nat (length (children ?i)))
          @ '' children, dimensions '' @ sliceNum exact (node_width (props ?i))
          @ ''x'' @ sliceNum exact (node_height (props ?i))
          @ ''px, positioned at ('' @ sliceNum exact (node_x (props ?i))
          @ '','' @ sliceNum exact (node_y (props ?i))
          @ '')px, '' @ ''Layout mode: NONE'' @ '':'' @ nl @ childBlock exact ?i =
     ''- A instance frame with 0 children, dimensions 10x20px, positioned at (0,0)px, Layout mode: NONE:''
       @ nl"
    by code_simp
  from frame_layout_info [OF vf tf, of exact, THEN conjunct2, rule_format, OF mf] ef
  have rf: "WidgetGenerator exact [?f] =
     ''- A frame frame with 0 children, dimensions 10x20px, positioned at (0,0)px, Layout mode: HORIZONTAL, Alignment: CENTER/MIN, Padding: 1.50px 0px 0px 4px:''
       @ nl"
    by (simp only:)
  from frame_layout_info [OF vi ti, of exact, THEN conjunct1, rule_format, OF mi] ei
  have ri: "WidgetGenerator exact [?i] =
     ''- A instance frame with 0 children, dimensions 10x20px, positioned at (0,0)px, Layout mode: NONE:''
       @ nl"
    by (simp only:)
  from vf rf ri show ?thesis by (simp only: simp_thms)
qed

section \<open>Text content\<close>

lemma escapeNewlines_no_newline: "CHR 0x0A \<notin> set (escapeNewlines s)"
  by (induction s) (simp_all add: escapeNewlines_def)

lemma escapeNewlines_same: "CHR 0x0A \<notin> set s \<Longrightarrow> escapeNewlines s = s"
  by (induction s) (auto simp add: escapeNewlines_def)

lemma generateTextPrompt_content:
  "\<exists>rest. generateTextPrompt js node =
     ''- Text node'' @ componentName node @ '' with content: '' @ [CHR 0x22]
       @ escapeNewlines (node_characters (props node)) @ [CHR 0x22] @ '', font size '' @ rest"
  by (simp add: generateTextPrompt_def Let_def)

text \<open>
  C9. The line of a rendered Text node holds, between double quotes, the characters of
  the node with every newline replaced by a backslash followed by \<open>n\<close> and everything
  else kept; no newline is left in the content. The content \<open>a\<close>, newline, \<open>b\<close> is
  rendered as \<open>a\<close>, backslash, \<open>n\<close>, \<open>b\<close>.
\<close>

theorem text_newlines_escaped:
  "(isVisible node \<and> node_type (props node) = ''TEXT'' \<longrightarrow>
      (\<exists>rest. WidgetGenerator js [node] =
         ''- Text node'' @ componentName node @ '' with content: '' @ [CHR 0x22]
           @ escapeNewlines (node_characters (props node)) @ [CHR 0x22] @ '', font size '' @ rest))
   \<and> escapeNewlines (s @ [CHR 0x0A] @ t) = escapeNewlines s @ [CHR 0x5C, CHR ''n''] @ escapeNewlines t
   \<and> (CHR 0x0A \<notin> set s \<longrightarrow> escapeNewlines s = s)
   \<and> CHR 0x0A \<notin> set (escapeNewlines s)
   \<and> escapeNewlines [CHR ''a'', CHR 0x0A, CHR ''b''] = [CHR ''a'', CHR 0x5C, CHR ''n'', CHR ''b'']"
proof (intro conjI impI)
  assume "isVisible node \<and> node_type (props node) = ''TEXT''"
  then have "WidgetGenerator js [node] = generateTextPrompt js node"
    by (simp add: WidgetGenerator_text)
  then show "\<exists>rest. WidgetGenerator js [node] =
         ''- Text node'' @ componentName node @ '' with content: '' @ [CHR 0x22]
           @ escapeNewlines (node_characters (props node)) @ [CHR 0x22] @ '', font size '' @ rest"
    using generateTextPrompt_content [of js node] by (simp only:)
next
  show "escapeNewlines (s @ [CHR 0x0A] @ t) = escapeNewlines s @ [CHR 0x5C, CHR ''n''] @ escapeNewlines t"
    by (simp add: escapeNewlines_def)
  show "escapeNewlines s = s" if "CHR 0x0A \<notin> set s"
    using that by (rule escapeNewlines_same)
  show "CHR 0x0A \<notin> set (escapeNewlines s)"
    by (rule escapeNewlines_no_newline)
  show "escapeNewlines [CHR ''a'', CHR 0x0A, CHR ''b''] = [CHR ''a'', CHR 0x5C, CHR ''n'', CHR ''b'']"
    by code_simp
qed

theorem text_newlines_escaped_witness:
  "isVisible (SceneNode (sample\<lparr>node_type := ''TEXT'', node_characters := ''a'' @ nl @ ''b''\<rparr>) [])
   \<and> node_type (props (SceneNode (sample\<lparr>node_type := ''TEXT'',
        node_characters := ''a'' @ nl @ ''b''\<rparr>) [])) = ''TEXT''
   \<and> (\<exists>rest. WidgetGenerator exact [SceneNode (sample\<lparr>node_type := ''TEXT'',
        node_characters := ''a'' @ nl @ ''b''\<rparr>) []] =
         ''- Text node with content: '' @ [CHR 0x22, CHR ''a'', CHR 0x5C, CHR ''n'', CHR ''b'', CHR 0x22]
           @ '', font size '' @ rest)
   \<and> WidgetGenerator exact [SceneNode (sample\<lparr>node_type := ''TEXT'',
        node_characters := ''a'' @ nl @ ''b''\<rparr>) []] =
         ''- Text node with content: '' @ [CHR 0x22, CHR ''a'', CHR 0x5C, CHR ''n'', CHR ''b'', CHR 0x22]
           @ '', font size 0px, font family Unknown, font style Unknown, alignment LEFT, color transparent, opacity at 100%, line height auto, and letter spacing normal.''"
proof -
  let ?t = "SceneNode (sample\<lparr>node_type := ''TEXT'', node_characters := ''a'' @ nl @ ''b''\<rparr>) []"
  have v: "isVisible ?t \<and> node_type (props ?t) = ''TEXT''" by code_simp
  have e: "''- Text node'' @ componentName ?t @ '' with content: '' @ [CHR 0x22]
           @ escapeNewlines (node_characters (props ?t)) @ [CHR 0x22] @ '', font size ''
      = ''- Text node with content: '' @ [CHR 0x22, CHR ''a'', CHR 0x5C, CHR ''n'', CHR ''b'', CHR 0x22]
           @ '', font size ''"
    by code_simp
  have f: "WidgetGenerator exact [?t] =
         ''- Text node with content: '' @ [CHR 0x22, CHR ''a'', CHR 0x5C, CHR ''n'', CHR ''b'', CHR 0x22]
           @ '', font size 0px, font family Unknown, font style Unknown, alignment LEFT, color transparent, opacity at 100%, line height auto, and letter spacing normal.''"
    by code_simp
  from text_newlines_escaped [of ?t exact, THEN conjunct1, rule_format, OF v]
  obtain rest where "WidgetGenerator exact [?t] =
         ''- Text node'' @ componentName ?t @ '' with content: '' @ [CHR 0x22]
           @ escapeNewlines (node_characters (props ?t)) @ [CHR 0x22] @ '', font size '' @ rest"
    by blast
  then have "WidgetGenerator exact [?t] =
         (''- Text node'' @ componentName ?t @ '' with content: '' @ [CHR 0x22]
           @ escapeNewlines (node_characters (props ?t)) @ [CHR 0x22] @ '', font size '') @ rest"
    by simp
  then have "WidgetGenerator exact [?t] =
      (''- Text node with content: '' @ [CHR 0x22, CHR ''a'', CHR 0x5C, CHR ''n'', CHR ''b'', CHR 0x22]
           @ '', font size '') @ rest"
    by (simp only: e)
  then have "\<exists>rest. WidgetGenerator exact [?t] =
      ''- Text node with content: '' @ [CHR 0x22, CHR ''a'', CHR 0x5C, CHR ''n'', CHR ''b'', CHR 0x22]
           @ '', font size '' @ rest"
    by (intro exI [of _ rest]) (simp only: append_assoc)
  with v f show ?thesis by (simp only: simp_thms)
qed

section \<open>Opacity zero\<close>

lemma numberToString_100: "numberToString js 100 = ''100''"
  by code_simp

lemma numberToString_1: "numberToString js 1 = ''1''"
  by code_simp

lemma Math_round_100: "Math_round 100 = 100"
  by code_simp

lemma nearestOpacity_zero:
  "fl js 100 = 100 \<Longrightarrow> numberToString js (nearestOpacity js (orElse (Some 0) 1)) = ''100''"
  by (simp add: nearestOpacity_def orElse_def Math_round_100 numberToString_100)

lemma nearestOpacity_absent:
  "nearestOpacity js (orElse (Some 0) 1) = nearestOpacity js (orElse None 1)"
  by (simp add: orElse_def)

text \<open>
  C10. A rendered Rectangle, Ellipse or Text node whose opacity is exactly 0 reports
  \<open>opacity at 100%\<close>: it is rendered as the same node without an opacity. Likewise a
  solid first fill or stroke paint whose opacity is exactly 0 is rendered with the
  alpha 1. (The product \<open>1 * 100\<close> is the double 100, which rounding leaves alone.)
\<close>

theorem zero_opacity_is_full_opacity:
  assumes "fl js 100 = 100"
  shows "(isVisible node \<and> node_opacity (props node) = Some 0
          \<and> (node_type (props node) = ''RECTANGLE'' \<or> node_type (props node) = ''ELLIPSE'') \<longrightarrow>
        WidgetGenerator js [node] =
          ''- A '' @ toLowerCase (node_type (props node)) @ componentName node
          @ '' with dimensions '' @ sliceNum js (node_width (props node))
          @ ''x'' @ sliceNum js (node_height (props node))
          @ ''px, positioned at ('' @ sliceNum js (node_x (props node))
          @ '','' @ sliceNum js (node_y (props node))
          @ '')px, with background color '' @ getBackgroundColor js node
          @ '', border width '' @ getBorderWidth js node
          @ '' color '' @ getBorderColor js node
          @ '', opacity at 100%, border radius '' @ getBorderRadius js node
          @ '', and shadow '' @ join '', '' (getShadow js node) @ ''.'')
     \<and> (isVisible node \<and> node_opacity (props node) = Some 0
          \<and> node_type (props node) = ''TEXT'' \<longrightarrow>
        WidgetGenerator js [node] =
          ''- Text node'' @ componentName node
          @ '' with content: '' @ [CHR 0x22] @ escapeNewlines (node_characters (props node))
          @ [CHR 0x22]
          @ '', font size ''
          @ sliceNum js (case node_fontSize (props node) of Val z \<Rightarrow> z | _ \<Rightarrow> 0)
          @ ''px, font family ''
          @ (case node_fontName (props node) of Val f \<Rightarrow> family f | _ \<Rightarrow> ''Unknown'')
          @ '', font style ''
          @ (case node_fontName (props node) of Val f \<Rightarrow> style f | _ \<Rightarrow> ''Unknown'')
          @ '', alignment ''
          @ (case node_textAlignHorizontal (props node) of
               None \<Rightarrow> ''LEFT'' | Some a \<Rightarrow> if a = [] then ''LEFT'' else a)
          @ '', color '' @ getBackgroundColor js node
          @ '', opacity at 100%, line height ''
          @ (case node_lineHeight (props node) of
               Val (WithUnit v u) \<Rightarrow> if u = ''AUTO'' then ''auto'' else numberToString js v @ u
             | Val (Bare v) \<Rightarrow> sliceNum js v
             | _ \<Rightarrow> ''auto'')
          @ '', and letter spacing ''
          @ (case node_letterSpacing (props node) of
               Val (WithUnit v u) \<Rightarrow> numberToString js v @ u
             | Val (Bare v) \<Rightarrow> sliceNum js v
             | _ \<Rightarrow> ''normal'')
          @ ''.'')
     \<and> (node_type (props node) \<in> {''RECTANGLE'', ''ELLIPSE'', ''TEXT''} \<longrightarrow>
        WidgetGenerator js [SceneNode ((props node)\<lparr>node_opacity := Some 0\<rparr>) (children node)]
          = WidgetGenerator js [SceneNode ((props node)\<lparr>node_opacity := None\<rparr>) (children node)])
     \<and> (node_fills (props node) = Val (paint # paints) \<and> paint_type paint = ''SOLID''
          \<and> paint_opacity paint = Some 0 \<longrightarrow>
        getBackgroundColor js node =
          ''rgba('' @ numberToString js (Math_round (fl js (rgb_r (paint_color paint) * 255))) @ '', ''
            @ numberToString js (Math_round (fl js (rgb_g (paint_color paint) * 255))) @ '', ''
            @ numberToString js (Math_round (fl js (rgb_b (paint_color paint) * 255))) @ '', 1)'')
     \<and> (node_strokes (props node) = Val (paint # paints) \<and> paint_type paint = ''SOLID''
          \<and> paint_opacity paint = Some 0 \<longrightarrow>
        getBorderColor js node =
          ''rgba('' @ numberToString js (Math_round (fl js (rgb_r (paint_color paint) * 255))) @ '', ''
            @ numberToString js (Math_round (fl js (rgb_g (paint_color paint) * 255))) @ '', ''
            @ numberToString js (Math_round (fl js (rgb_b (paint_color paint) * 255))) @ '', 1)'')"
proof (intro conjI impI)
  assume a: "isVisible node \<and> node_opacity (props node) = Some 0
      \<and> (node_type (props node) = ''RECTANGLE'' \<or> node_type (props node) = ''ELLIPSE'')"
  then have "WidgetGenerator js [node] = generateContainerPrompt js node"
    by (simp add: WidgetGenerator_container)
  with a show "WidgetGenerator js [node] =
          ''- A '' @ toLowerCase (node_type (props node)) @ componentName node
          @ '' with dimensions '' @ sliceNum js (node_width (props node))
          @ ''x'' @ sliceNum js (node_height (props node))
          @ ''px, positioned at ('' @ sliceNum js (node_x (props node))
          @ '','' @ sliceNum js (node_y (props node))
          @ '')px, with background color '' @ getBackgroundColor js node
          @ '', border width '' @ getBorderWidth js node
          @ '' color '' @ getBorderColor js node
          @ '', opacity at 100%, border radius '' @ getBorderRadius js node
          @ '', and shadow '' @ join '', '' (getShadow js node) @ ''.''"
    by (simp add: generateContainerPrompt_def nearestOpacity_zero [OF assms])
next
  assume a: "isVisible node \<and> node_opacity (props node) = Some 0
      \<and> node_type (props node) = ''TEXT''"
  then have "WidgetGenerator js [node] = generateTextPrompt js node"
    by (simp add: WidgetGenerator_text)
  with a show "WidgetGenerator js [node] =
          ''- Text node'' @ componentName node
          @ '' with content: '' @ [CHR 0x22] @ escapeNewlines (node_characters (props node))
          @ [CHR 0x22]
          @ '', font size ''
          @ sliceNum js (case node_fontSize (props node) of Val z \<Rightarrow> z | _ \<Rightarrow> 0)
          @ ''px, font family ''
          @ (case node_fontName (props node) of Val f \<Rightarrow> family f | _ \<Rightarrow> ''Unknown'')
          @ '', font style ''
          @ (case node_fontName (props node) of Val f \<Rightarrow> style f | _ \<Rightarrow> ''Unknown'')
          @ '', alignment ''
          @ (case node_textAlignHorizontal (props node) of
               None \<Rightarrow> ''LEFT'' | Some a \<Rightarrow> if a = [] then ''LEFT'' else a)
          @ '', color '' @ getBackgroundColor js node
          @ '', opacity at 100%, line height ''
          @ (case node_lineHeight (props node) of
               Val (WithUnit v u) \<Rightarrow> if u = ''AUTO'' then ''auto'' else numberToString js v @ u
             | Val (Bare v) \<Rightarrow> sliceNum js v
             | _ \<Rightarrow> ''auto'')
          @ '', and letter spacing ''
          @ (case node_letterSpacing (props node) of
               Val (WithUnit v u) \<Rightarrow> numberToString js v @ u
             | Val (Bare v) \<Rightarrow> sliceNum js v
             | _ \<Rightarrow> ''normal'')
          @ ''.''"
    by (simp add: generateTextPrompt_def Let_def nearestOpacity_zero [OF assms]
        split: field.splits)
next
  assume "node_type (props node) \<in> {''RECTANGLE'', ''ELLIPSE'', ''TEXT''}"
  then show "WidgetGenerator js [SceneNode ((props node)\<lparr>node_opacity := Some 0\<rparr>) (children node)]
      = WidgetGenerator js [SceneNode ((props node)\<lparr>node_opacity := None\<rparr>) (children node)]"
    by (auto simp add: WidgetGenerator.simps generateContainerPrompt_def generateTextPrompt_def
        Let_def componentName_def getBackgroundColor_def getBorderWidth_def getBorderColor_def
        getBorderRadius_def getShadow_def nearestOpacity_absent)
next
  assume "node_fills (props node) = Val (paint # paints) \<and> paint_type paint = ''SOLID''
      \<and> paint_opacity paint = Some 0"
  then show "getBackgroundColor js node =
      ''rgba('' @ numberToString js (Math_round (fl js (rgb_r (paint_color paint) * 255))) @ '', ''
        @ numberToString js (Math_round (fl js (rgb_g (paint_color paint) * 255))) @ '', ''
        @ numberToString js (Math_round (fl js (rgb_b (paint_color paint) * 255))) @ '', 1)''"
    by (simp add: getBackgroundColor_def orElse_def rgbaFromRGB_def numberToString_1)
next
  assume "node_strokes (props node) = Val (paint # paints) \<and> paint_type paint = ''SOLID''
      \<and> paint_opacity paint = Some 0"
  then show "getBorderColor js node =
      ''rgba('' @ numberToString js (Math_round (fl js (rgb_r (paint_color paint) * 255))) @ '', ''
        @ numberToString js (Math_round (fl js (rgb_g (paint_color paint) * 255))) @ '', ''
        @ numberToString js (Math_round (fl js (rgb_b (paint_color paint) * 255))) @ '', 1)''"
    by (simp add: getBorderColor_def orElse_def rgbaFromRGB_def numberToString_1)
qed

theorem zero_opacity_is_full_opacity_witness:
  "fl exact 100 = 100
   \<and> isVisible (SceneNode (sample\<lparr>node_opacity := Some 0, node_fills := Val [solid (Some 0)]\<rparr>) [])
   \<and> node_opacity (props (SceneNode (sample\<lparr>node_opacity := Some 0,
        node_fills := Val [solid (Some 0)]\<rparr>) [])) = Some 0
   \<and> node_type (props (SceneNode (sample\<lparr>node_opacity := Some 0,
        node_fills := Val [solid (Some 0)]\<rparr>) [])) = ''RECTANGLE''
   \<and> WidgetGenerator exact [SceneNode (sample\<lparr>node_opacity := Some 0,
        node_fills := Val [solid (Some 0)]\<rparr>) []] =
       ''- A rectangle with dimensions 10x20px, positioned at (0,0)px, with background color rgba(255, 0, 0, 1), border width 0px color transparent, opacity at 100%, border radius 0px, and shadow .''"
proof -
  let ?n = "SceneNode (sample\<lparr>node_opacity := Some 0, node_fills := Val [solid (Some 0)]\<rparr>) []"
  have h: "fl exact 100 = 100" by (simp add: exact_def)
  have a: "isVisible ?n \<and> node_opacity (props ?n) = Some 0
      \<and> (node_type (props ?n) = ''RECTANGLE'' \<or> node_type (props ?n) = ''ELLIPSE'')"
    by (simp add: isVisible_def sample_def)
  have e: "''- A '' @ toLowerCase (node_type (props ?n)) @ componentName ?n
          @ '' with dimensions '' @ sliceNum exact (node_width (props ?n))
          @ ''x'' @ sliceNum exact (node_height (props ?n))
          @ ''px, positioned at ('' @ sliceNum exact (node_x (props ?n))
          @ '','' @ sliceNum exact (node_y (props ?n))
          @ '')px, with background color '' @ getBackgroundColor exact ?n
          @ '', border width '' @ getBorderWidth exact ?n
          @ '' color '' @ getBorderColor exact ?n
          @ '', opacity at 100%, border radius '' @ getBorderRadius exact ?n
          @ '', and shadow '' @ join '', '' (getShadow exact ?n) @ ''.'' =
       ''- A rectangle with dimensions 10x20px, positioned at (0,0)px, with background color rgba(255, 0, 0, 1), border width 0px color transparent, opacity at 100%, border radius 0px, and shadow .''"
    by code_simp
  from zero_opacity_is_full_opacity [OF h, of ?n, THEN conjunct1, rule_format, OF a] e
  have "WidgetGenerator exact [?n] =
       ''- A rectangle with dimensions 10x20px, positioned at (0,0)px, with background color rgba(255, 0, 0, 1), border width 0px color transparent, opacity at 100%, border radius 0px, and shadow .''"
    by (simp only:)
  moreover have "node_type (props ?n) = ''RECTANGLE''" by (simp add: sample_def)
  ultimately show ?thesis using h a by (simp only: simp_thms)
qed

section \<open>The message handler\<close>

lemma overview_starts: "\<exists>rest. overview msg = CHR ''C'' # rest"
  by (simp add: overview_def)

lemma prompt_not_notice: "overview msg @ rest \<noteq> ''No nodes selected.''"
  using overview_starts [of msg] by auto

text \<open>
  C6. On a \<open>generate\<close> message the handler posts the notice \<open>No nodes selected.\<close>
  exactly when the selection is absent or empty. For every other selection it posts the
  full prompt, which has a Layout section holding the rendering of the converted
  selection; this also holds for a selection of unsupported kinds only, whose rendering
  is empty.
\<close>

theorem notice_only_for_empty_selection:
  assumes "msg_type msg = ''generate''"
  shows "((onmessage js selection msg = Some ''No nodes selected.'')
          = (selection = None \<or> selection = Some []))
     \<and> (\<forall>nodes. selection = Some nodes \<and> nodes \<noteq> [] \<longrightarrow>
          onmessage js selection msg =
            Some (overview msg
              @ ''### Layout:'' @ nl
              @ ''- This layout is created based on the selected nodes from Figma.'' @ nl
              @ WidgetGenerator js (convertIntoNodes nodes)
              @ implementationAndUsage msg)
          \<and> ((\<forall>node \<in> set nodes. \<not> supported (node_type (props node))) \<longrightarrow>
               onmessage js selection msg =
                 Some (overview msg
                   @ ''### Layout:'' @ nl
                   @ ''- This layout is created based on the selected nodes from Figma.'' @ nl
                   @ implementationAndUsage msg)))"
proof (intro conjI allI impI)
  show "(onmessage js selection msg = Some ''No nodes selected.'')
      = (selection = None \<or> selection = Some [])"
  proof (cases selection)
    case None
    with assms show ?thesis by (simp add: onmessage_def)
  next
    case (Some nodes)
    show ?thesis
    proof (cases "nodes = []")
      case True
      with Some assms show ?thesis by (simp add: onmessage_def)
    next
      case False
      with Some assms show ?thesis
        using prompt_not_notice by (simp add: onmessage_def Let_def)
    qed
  qed
next
  fix nodes
  assume a: "selection = Some nodes \<and> nodes \<noteq> []"
  with assms show full: "onmessage js selection msg =
      Some (overview msg
        @ ''### Layout:'' @ nl
        @ ''- This layout is created based on the selected nodes from Figma.'' @ nl
        @ WidgetGenerator js (convertIntoNodes nodes)
        @ implementationAndUsage msg)"
    by (simp add: onmessage_def Let_def Main_def)
  assume "\<forall>node \<in> set nodes. \<not> supported (node_type (props node))"
  then have "convertIntoNodes nodes = []"
    by (simp add: convertIntoNodes_filter)
  then have "WidgetGenerator js (convertIntoNodes nodes) = []"
    by (simp add: WidgetGenerator.simps)
  with full show "onmessage js selection msg =
      Some (overview msg
        @ ''### Layout:'' @ nl
        @ ''- This layout is created based on the selected nodes from Figma.'' @ nl
        @ implementationAndUsage msg)"
    by simp
qed

theorem notice_only_for_empty_selection_witness:
  "msg_type generateMsg = ''generate''
   \<and> onmessage exact None generateMsg = Some ''No nodes selected.''
   \<and> onmessage exact (Some []) generateMsg = Some ''No nodes selected.''
   \<and> onmessage exact (Some [ofKind ''STAR'' []]) generateMsg =
        Some (overview generateMsg
          @ ''### Layout:'' @ nl
          @ ''- This layout is created based on the selected nodes from Figma.'' @ nl
          @ implementationAndUsage generateMsg)
   \<and> onmessage exact (Some [ofKind ''STAR'' []]) generateMsg \<noteq> Some ''No nodes selected.''"
proof -
  have g: "msg_type generateMsg = ''generate''" by (simp add: generateMsg_def)
  note t = notice_only_for_empty_selection [OF g, of exact]
  have n: "onmessage exact None generateMsg = Some ''No nodes selected.''"
    using t [of None, THEN conjunct1] by simp
  have e: "onmessage exact (Some []) generateMsg = Some ''No nodes selected.''"
    using t [of "Some []", THEN conjunct1] by simp
  have u: "\<forall>node \<in> set [ofKind ''STAR'' []]. \<not> supported (node_type (props node))"
    by code_simp
  have s: "onmessage exact (Some [ofKind ''STAR'' []]) generateMsg =
        Some (overview generateMsg
          @ ''### Layout:'' @ nl
          @ ''- This layout is created based on the selected nodes from Figma.'' @ nl
          @ implementationAndUsage generateMsg)"
  proof -
    have ne: "Some [ofKind ''STAR'' []] = Some [ofKind ''STAR'' []] \<and> [ofKind ''STAR'' []] \<noteq> []"
      by simp
    from t [of "Some [ofKind ''STAR'' []]"] ne u show ?thesis by blast
  qed
  have d: "onmessage exact (Some [ofKind ''STAR'' []]) generateMsg \<noteq> Some ''No nodes selected.''"
    using t [of "Some [ofKind ''STAR'' []]", THEN conjunct1] by simp
  from g n e s d show ?thesis by (simp only: simp_thms)
qed

end
